theory Spec2Isabelle
  imports Main "HOL-Library.Word" "HOL-Library.Monad_Syntax"
begin

section \<open>CV certificates of STB 34.101.79 (btok\_cvc.c)\<close>

text \<open>
  A shallow embedding of \<^verbatim>\<open>btok_cvc.c\<close>. Octets are 8-bit words, buffers are
  lists of octets, \<^verbatim>\<open>size_t\<close> values are natural numbers (no length of this file
  comes near the word size). A C string is modelled by the octets before its
  terminating NUL.
\<close>

type_synonym octet = "8 word"

subsection \<open>Error codes and assertions\<close>

text \<open>
  The error codes of \<^verbatim>\<open>bee2/core/err.h\<close> that the file names; any other code an
  external function may return is \<open>ERR_OTHER n\<close>.
\<close>

datatype err_t =
    ERR_OK
  | ERR_BAD_INPUT
  | ERR_BAD_NAME
  | ERR_BAD_DATE
  | ERR_BAD_FORMAT
  | ERR_BAD_PUBKEY
  | ERR_BAD_KEYPAIR
  | ERR_BAD_SIG
  | ERR_OUTOFMEMORY
  | ERR_OTHER nat

text \<open>
  The model is the build with \<^verbatim>\<open>ASSERT\<close> active: a failed assertion stops the
  call. \<open>Inl a\<close> says which assertion failed, \<open>Inr v\<close> is a normal return.
\<close>

datatype assert_id =
    ASSERT_DateLeq
  | ASSERT_BodyEnc_pre
  | ASSERT_EncStep
  | ASSERT_Sign_pre
  | ASSERT_Sign_oid
  | ASSERT_Verify_pre
  | ASSERT_Verify_oid

subsection \<open>The certificate record\<close>

text \<open>
  Modelled from the spec: the declaration of \<^verbatim>\<open>btok_cvc_t\<close> (bee2/crypto/btok.h) is
  not among the sources. The fields are those of the data model (section 3 of the
  specification) and of the accesses in \<^verbatim>\<open>btok_cvc.c\<close>: \<open>pubkey\<close> is a buffer of
  128 octets of which the first \<open>pubkey_len\<close> are the key, \<open>sig\<close> a buffer of 96
  octets of which the first \<open>sig_len\<close> are the signature. The field \<^verbatim>\<open>from\<close> is
  named \<open>from_date\<close> here.
\<close>

record btok_cvc_t =
  authority :: "octet list"
  holder :: "octet list"
  pubkey :: "octet list"
  pubkey_len :: nat
  hat_eid :: "octet list"
  hat_esign :: "octet list"
  from_date :: "octet list"
  until :: "octet list"
  sig :: "octet list"
  sig_len :: nat

definition cvc_sizes :: "btok_cvc_t \<Rightarrow> bool" where
  "cvc_sizes cvc =
     (length (pubkey cvc) = 128 \<and> length (hat_eid cvc) = 5 \<and>
      length (hat_esign cvc) = 2 \<and> length (from_date cvc) = 6 \<and>
      length (until cvc) = 6 \<and> length (sig cvc) = 96)"

text \<open>\<^verbatim>\<open>memSetZero(cvc, sizeof(btok_cvc_t))\<close>: every buffer zeroed, both strings empty.\<close>

definition cvc_zero :: btok_cvc_t where
  "cvc_zero =
     \<lparr>authority = [], holder = [], pubkey = replicate 128 0, pubkey_len = 0,
      hat_eid = replicate 5 0, hat_esign = replicate 2 0,
      from_date = replicate 6 0, until = replicate 6 0,
      sig = replicate 96 0, sig_len = 0\<rparr>"

subsection \<open>External collaborators\<close>

text \<open>
  The signature scheme (bign), the hash functions (belt, bash), the random number
  generator and the allocator are outside \<^verbatim>\<open>btok_cvc.c\<close>; the model takes them as a
  record of functions. A function that fills an output buffer returns its error
  code with the octets written. \<open>'p\<close> is the type of the loaded curve parameters
  (\<^verbatim>\<open>bign_params\<close>). Where a C parameter has the name of a field of the certificate
  record (\<^verbatim>\<open>pubkey\<close>, \<^verbatim>\<open>pubkey_len\<close>, \<^verbatim>\<open>sig\<close>), the model writes \<open>pub\<close>,
  \<open>pub_len\<close>, \<open>sg\<close>.
\<close>

record 'p crypto =
  bignStdParams :: "string \<Rightarrow> err_t \<times> 'p"
  bignValPubkey :: "'p \<Rightarrow> octet list \<Rightarrow> err_t"
  bignCalcPubkey :: "'p \<Rightarrow> octet list \<Rightarrow> err_t \<times> octet list"
  bignValKeypair :: "'p \<Rightarrow> octet list \<Rightarrow> octet list \<Rightarrow> err_t"
  bignOidToDER :: "string \<Rightarrow> err_t \<times> octet list"
  beltHash :: "octet list \<Rightarrow> err_t \<times> octet list"
  bashHash :: "nat \<Rightarrow> octet list \<Rightarrow> err_t \<times> octet list"
  bignSign2 ::
    "'p \<Rightarrow> octet list \<Rightarrow> octet list \<Rightarrow> octet list \<Rightarrow> octet list \<Rightarrow> err_t \<times> octet list"
  bignVerify ::
    "'p \<Rightarrow> octet list \<Rightarrow> octet list \<Rightarrow> octet list \<Rightarrow> octet list \<Rightarrow> err_t"
  rngIsValid :: bool
  rngStepR :: "nat \<Rightarrow> octet list"
  blobCreate :: "nat \<Rightarrow> bool"
  sizeof_bign_params :: nat
  sizeof_btok_cvc_t :: nat

subsection \<open>Basic cryptography\<close>

text \<open>The curve identifier selected by the length of the private key.\<close>

definition params_oid :: "nat \<Rightarrow> string" where
  "params_oid privkey_len =
     (if privkey_len = 32 then ''1.2.112.0.2.0.34.101.45.3.1''
      else if privkey_len = 48 then ''1.2.112.0.2.0.34.101.45.3.2''
      else ''1.2.112.0.2.0.34.101.45.3.3'')"

text \<open>The same choice written on the length of the public key.\<close>

definition params_oid_pub :: "nat \<Rightarrow> string" where
  "params_oid_pub pub_len =
     (if pub_len = 64 then ''1.2.112.0.2.0.34.101.45.3.1''
      else if pub_len = 96 then ''1.2.112.0.2.0.34.101.45.3.2''
      else ''1.2.112.0.2.0.34.101.45.3.3'')"

definition btokPubkeyCalc :: "'p crypto \<Rightarrow> octet list \<Rightarrow> nat \<Rightarrow> err_t \<times> octet list" where
  "btokPubkeyCalc env privkey privkey_len =
     (if privkey_len \<noteq> 32 \<and> privkey_len \<noteq> 48 \<and> privkey_len \<noteq> 64 then (ERR_BAD_INPUT, [])
      else case bignStdParams env (params_oid privkey_len) of
        (code, params) \<Rightarrow>
          if code \<noteq> ERR_OK then (code, [])
          else bignCalcPubkey env params privkey)"

definition btokPubkeyVal :: "'p crypto \<Rightarrow> octet list \<Rightarrow> nat \<Rightarrow> err_t" where
  "btokPubkeyVal env pub pub_len =
     (if pub_len \<noteq> 64 \<and> pub_len \<noteq> 96 \<and> pub_len \<noteq> 128 then ERR_BAD_INPUT
      else case bignStdParams env (params_oid_pub pub_len) of
        (code, params) \<Rightarrow>
          if code \<noteq> ERR_OK then code
          else bignValPubkey env params (take pub_len pub))"

definition btokKeypairVal ::
  "'p crypto \<Rightarrow> octet list \<Rightarrow> nat \<Rightarrow> octet list \<Rightarrow> nat \<Rightarrow> err_t" where
  "btokKeypairVal env privkey privkey_len pub pub_len =
     (if privkey_len \<noteq> 32 \<and> privkey_len \<noteq> 48 \<and> privkey_len \<noteq> 64 then ERR_BAD_INPUT
      else if pub_len \<noteq> 2 * privkey_len then ERR_BAD_KEYPAIR
      else case bignStdParams env (params_oid privkey_len) of
        (code, params) \<Rightarrow>
          if code \<noteq> ERR_OK then code
          else bignValKeypair env params privkey (take pub_len pub))"

subsection \<open>Content of a certificate\<close>

fun btokCVCDateIsValid :: "octet list \<Rightarrow> bool" where
  "btokCVCDateIsValid [d0, d1, d2, d3, d4, d5] =
     (if d0 > 9 \<or> d1 > 9 \<or> d2 > 9 \<or> d3 > 9 \<or> d4 > 9 \<or> d5 > 9 then False
      else
        let y = 10 * d0 + d1; m = 10 * d2 + d3; d = 10 * d4 + d5
        in y \<ge> 19 \<and> 1 \<le> m \<and> m \<le> 12 \<and> 1 \<le> d \<and> d \<le> 31 \<and>
           \<not> (d = 31 \<and> (m = 4 \<or> m = 6 \<or> m = 9 \<or> m = 11)) \<and>
           \<not> (m = 2 \<and> (d > 29 \<or> d = 29 \<and> y mod 4 \<noteq> 0)))"
| "btokCVCDateIsValid _ = False"

text \<open>
  Modelled from the spec: \<^verbatim>\<open>memCmp\<close> (bee2/core/mem.h) is not among the sources;
  the specification gives the comparison of two dates as byte-wise lexicographic
  over the 6 octets. The result is negative, zero or positive.
\<close>

fun memCmp :: "octet list \<Rightarrow> octet list \<Rightarrow> int" where
  "memCmp (x # xs) (y # ys) = (if x < y then -1 else if x > y then 1 else memCmp xs ys)"
| "memCmp _ _ = 0"

definition btokCVCDateLeq :: "octet list \<Rightarrow> octet list \<Rightarrow> assert_id + bool" where
  "btokCVCDateLeq left right =
     (if \<not> btokCVCDateIsValid left then Inl ASSERT_DateLeq
      else if \<not> btokCVCDateIsValid right then Inl ASSERT_DateLeq
      else Inr (memCmp left right \<le> 0))"

text \<open>
  Modelled from the spec: \<^verbatim>\<open>strIsPrintable\<close> (bee2/core/str.h) is not among the
  sources; the specification names the alphabet of the ASN.1 PrintableString:
  letters, digits, space and the characters \<^verbatim>\<open>'()+,-./:=?\<close>.
\<close>

definition printable_octet :: "octet \<Rightarrow> bool" where
  "printable_octet c =
     ((0x41 \<le> c \<and> c \<le> 0x5A) \<or> (0x61 \<le> c \<and> c \<le> 0x7A) \<or> (0x30 \<le> c \<and> c \<le> 0x39) \<or>
      c = 0x20 \<or> c = 0x27 \<or> c = 0x28 \<or> c = 0x29 \<or> c = 0x2B \<or> c = 0x2C \<or>
      c = 0x2D \<or> c = 0x2E \<or> c = 0x2F \<or> c = 0x3A \<or> c = 0x3D \<or> c = 0x3F)"

definition strIsPrintable :: "octet list \<Rightarrow> bool" where
  "strIsPrintable str = list_all printable_octet str"

definition btokCVCNameIsValid :: "octet list \<Rightarrow> bool" where
  "btokCVCNameIsValid name =
     (8 \<le> length name \<and> length name \<le> 12 \<and> strIsPrintable name)"

text \<open>Sequencing of calls that may stop at an assertion.\<close>

definition bindA :: "assert_id + 'a \<Rightarrow> ('a \<Rightarrow> assert_id + 'b) \<Rightarrow> assert_id + 'b" where
  "bindA r f = (case r of Inl a \<Rightarrow> Inl a | Inr v \<Rightarrow> f v)"

text \<open>
  The conjunction of \<^verbatim>\<open>btokCVCInfoSeemsValid\<close> is evaluated left to right and stops
  at the first false conjunct, so the comparison runs only when both dates are
  valid.
\<close>

definition btokCVCInfoSeemsValid :: "btok_cvc_t \<Rightarrow> assert_id + bool" where
  "btokCVCInfoSeemsValid cvc =
     (if \<not> btokCVCNameIsValid (authority cvc) then Inr False
      else if \<not> btokCVCNameIsValid (holder cvc) then Inr False
      else if \<not> btokCVCDateIsValid (from_date cvc) then Inr False
      else if \<not> btokCVCDateIsValid (until cvc) then Inr False
      else bindA (btokCVCDateLeq (from_date cvc) (until cvc)) (\<lambda>leq.
        if \<not> leq then Inr False
        else Inr (pubkey_len cvc = 64 \<or> pubkey_len cvc = 96 \<or> pubkey_len cvc = 128)))"

text \<open>
  A pointer to a record is an option: \<open>None\<close> is the pointer \<^verbatim>\<open>memIsValid\<close>
  rejects.
\<close>

definition btokCVCCheck :: "'p crypto \<Rightarrow> btok_cvc_t option \<Rightarrow> assert_id + err_t" where
  "btokCVCCheck env cvcp =
     (case cvcp of
        None \<Rightarrow> Inr ERR_BAD_INPUT
      | Some cvc \<Rightarrow>
          if \<not> btokCVCNameIsValid (authority cvc) \<or> \<not> btokCVCNameIsValid (holder cvc)
          then Inr ERR_BAD_NAME
          else if \<not> btokCVCDateIsValid (from_date cvc) then Inr ERR_BAD_DATE
          else if \<not> btokCVCDateIsValid (until cvc) then Inr ERR_BAD_DATE
          else bindA (btokCVCDateLeq (from_date cvc) (until cvc)) (\<lambda>leq.
            if \<not> leq then Inr ERR_BAD_DATE
            else Inr (btokPubkeyVal env (pubkey cvc) (pubkey_len cvc))))"

definition btokCVCCheck2 ::
  "'p crypto \<Rightarrow> btok_cvc_t option \<Rightarrow> btok_cvc_t option \<Rightarrow> assert_id + err_t" where
  "btokCVCCheck2 env cvcp cvcap =
     bindA (btokCVCCheck env cvcp) (\<lambda>code.
       if code \<noteq> ERR_OK then Inr code
       else
         (case (cvcp, cvcap) of
            (Some cvc, Some cvca) \<Rightarrow>
              if authority cvc \<noteq> holder cvca then Inr ERR_BAD_NAME
              else if \<not> btokCVCDateIsValid (from_date cvca) then Inr ERR_BAD_DATE
              else if \<not> btokCVCDateIsValid (until cvca) then Inr ERR_BAD_DATE
              else bindA (btokCVCDateLeq (from_date cvca) (from_date cvc)) (\<lambda>leq1.
                if \<not> leq1 then Inr ERR_BAD_DATE
                else bindA (btokCVCDateLeq (from_date cvc) (until cvca)) (\<lambda>leq2.
                  if \<not> leq2 then Inr ERR_BAD_DATE else Inr ERR_OK))
          | _ \<Rightarrow> Inr ERR_BAD_INPUT))"

subsection \<open>DER primitives\<close>

text \<open>
  Modelled from the spec: the DER primitives of \<^verbatim>\<open>bee2/core/der.h\<close> are not among
  the sources. The model follows sections 4.3, 4.4 and 6 of the specification:
  definite lengths in minimal form, tags written as the octets of their
  hexadecimal value (\<^verbatim>\<open>0x7F4E\<close> is \<^verbatim>\<open>7F 4E\<close>), a BIT STRING with its
  unused-bits octet, raw OCTET STRING contents, a SIZE as a minimal non-negative
  integer. An encoder returns the octets it produces; a decoder takes the
  \<^verbatim>\<open>count\<close> octets at its pointer as a list and returns \<open>None\<close> for \<^verbatim>\<open>SIZE_MAX\<close>,
  otherwise what it decoded with the number of octets consumed.
\<close>

function be_octets :: "nat \<Rightarrow> octet list" where
  "be_octets n = (if n < 256 then [of_nat n] else be_octets (n div 256) @ [of_nat (n mod 256)])"
  by pat_completeness auto
termination
  by (relation "measure id") auto

declare be_octets.simps [simp del]

definition be_nat :: "octet list \<Rightarrow> nat" where
  "be_nat bs = foldl (\<lambda>a b. 256 * a + unat b) 0 bs"

definition derTEnc :: "nat \<Rightarrow> octet list" where
  "derTEnc tag = be_octets tag"

definition derLEnc :: "nat \<Rightarrow> octet list" where
  "derLEnc len =
     (if len < 128 then [of_nat len]
      else of_nat (128 + length (be_octets len)) # be_octets len)"

definition derEnc :: "nat \<Rightarrow> octet list \<Rightarrow> octet list" where
  "derEnc tag val = derTEnc tag @ derLEnc (length val) @ val"

definition derTDec2 :: "octet list \<Rightarrow> nat \<Rightarrow> nat option" where
  "derTDec2 der tag =
     (if take (length (derTEnc tag)) der = derTEnc tag then Some (length (derTEnc tag))
      else None)"

definition derStartsWith :: "octet list \<Rightarrow> nat \<Rightarrow> bool" where
  "derStartsWith der tag = (derTDec2 der tag \<noteq> None)"

fun derLDec :: "octet list \<Rightarrow> (nat \<times> nat) option" where
  "derLDec [] = None"
| "derLDec (b # rest) =
     (if b < 128 then Some (unat b, 1)
      else
        let k = unat b - 128; v = take k rest
        in if k = 0 \<or> length rest < k then None
           else if hd v = 0 \<or> be_nat v < 128 then None
           else Some (be_nat v, 1 + k))"

definition derDec :: "octet list \<Rightarrow> nat \<Rightarrow> (octet list \<times> nat) option" where
  "derDec der tag = do {
     t \<leftarrow> derTDec2 der tag;
     (len, l) \<leftarrow> derLDec (drop t der);
     if length der < t + l + len then None
     else Some (take len (drop (t + l) der), t + l + len)
   }"

definition derDec3 :: "octet list \<Rightarrow> nat \<Rightarrow> nat \<Rightarrow> (octet list \<times> nat) option" where
  "derDec3 der tag len = do {
     (val, c) \<leftarrow> derDec der tag;
     if length val \<noteq> len then None else Some (val, c)
   }"

text \<open>SIZE: a non-negative integer in the minimal form of an INTEGER.\<close>

definition size_octets :: "nat \<Rightarrow> octet list" where
  "size_octets val = (let bs = be_octets val in if hd bs \<ge> 128 then 0 # bs else bs)"

definition derTSIZEEnc :: "nat \<Rightarrow> nat \<Rightarrow> octet list" where
  "derTSIZEEnc tag val = derEnc tag (size_octets val)"

definition derTSIZEDec :: "octet list \<Rightarrow> nat \<Rightarrow> (nat \<times> nat) option" where
  "derTSIZEDec der tag = do {
     (v, c) \<leftarrow> derDec der tag;
     if v = [] \<or> hd v \<ge> 128 then None
     else if length v > 1 \<and> hd v = 0 \<and> hd (tl v) < 128 then None
     else Some (be_nat v, c)
   }"

definition derTSIZEDec2 :: "octet list \<Rightarrow> nat \<Rightarrow> nat \<Rightarrow> nat option" where
  "derTSIZEDec2 der tag val = do {
     (v, c) \<leftarrow> derTSIZEDec der tag;
     if v \<noteq> val then None else Some c
   }"

text \<open>PrintableString: refused, on both sides, when an octet is not printable.\<close>

definition derTPSTREnc :: "nat \<Rightarrow> octet list \<Rightarrow> octet list option" where
  "derTPSTREnc tag str = (if strIsPrintable str then Some (derEnc tag str) else None)"

definition derTPSTRDec :: "octet list \<Rightarrow> nat \<Rightarrow> (octet list \<times> nat \<times> nat) option" where
  "derTPSTRDec der tag = do {
     (v, c) \<leftarrow> derDec der tag;
     if \<not> strIsPrintable v then None else Some (v, length v, c)
   }"

text \<open>
  Object identifiers are lists of arcs (the dotted strings of the source, parsed);
  the first two arcs share an octet, every arc is written in base 128.
\<close>

function base128_high :: "nat \<Rightarrow> octet list" where
  "base128_high n =
     (if n = 0 then [] else base128_high (n div 128) @ [of_nat (128 + n mod 128)])"
  by pat_completeness auto
termination
  by (relation "measure id") auto

declare base128_high.simps [simp del]

definition base128 :: "nat \<Rightarrow> octet list" where
  "base128 n = base128_high (n div 128) @ [of_nat (n mod 128)]"

fun oid_octets :: "nat list \<Rightarrow> octet list" where
  "oid_octets (a # b # rest) = concat (map base128 ((40 * a + b) # rest))"
| "oid_octets _ = []"

definition derOIDEnc :: "nat list \<Rightarrow> octet list" where
  "derOIDEnc oid = derEnc 0x06 (oid_octets oid)"

definition derOIDDec2 :: "octet list \<Rightarrow> nat list \<Rightarrow> nat option" where
  "derOIDDec2 der oid = do {
     (v, c) \<leftarrow> derDec der 0x06;
     if v \<noteq> oid_octets oid then None else Some c
   }"

text \<open>
  BIT STRING of \<open>len\<close> bits; the source passes a multiple of 8 only. The decoder
  returns the octets of the string, its length in bits and the octets consumed.
\<close>

definition derBITEnc :: "octet list \<Rightarrow> nat \<Rightarrow> octet list" where
  "derBITEnc val len =
     derEnc 0x03 (of_nat ((8 - len mod 8) mod 8) # take ((len + 7) div 8) val)"

definition derBITDec :: "octet list \<Rightarrow> (octet list \<times> nat \<times> nat) option" where
  "derBITDec der = do {
     (v, c) \<leftarrow> derDec der 0x03;
     case v of
       [] \<Rightarrow> None
     | u # bits \<Rightarrow>
         if u > 7 \<or> (bits = [] \<and> u \<noteq> 0) then None
         else Some (bits, 8 * length bits - unat u, c)
   }"

definition derTOCTEnc :: "nat \<Rightarrow> octet list \<Rightarrow> nat \<Rightarrow> octet list" where
  "derTOCTEnc tag val len = derEnc tag (take len val)"

definition derOCTEnc :: "octet list \<Rightarrow> nat \<Rightarrow> octet list" where
  "derOCTEnc val len = derTOCTEnc 0x04 val len"

definition derTOCTDec2 :: "octet list \<Rightarrow> nat \<Rightarrow> nat \<Rightarrow> (octet list \<times> nat) option" where
  "derTOCTDec2 der tag len = derDec3 der tag len"

definition derOCTDec2 :: "octet list \<Rightarrow> nat \<Rightarrow> (octet list \<times> nat) option" where
  "derOCTDec2 der len = derTOCTDec2 der 0x04 len"

text \<open>
  Constructed elements on the encoding side. The state of an encoder is the
  output written so far (\<open>None\<close> when the output pointer is null: a dry run) and
  the running \<^verbatim>\<open>count\<close>. \<^verbatim>\<open>derTSEQEncStart\<close> writes the tag with a provisional
  length of one zero octet; its anchor is the count at that moment with the tag.
  \<^verbatim>\<open>derTSEQEncStop\<close> replaces the provisional octet by the length of what was
  written since, moving that content, and advances by the growth of the header.
\<close>

type_synonym enc_state = "octet list option \<times> nat"

type_synonym enc_anchor = "nat \<times> nat"

definition derEncStep :: "octet list \<Rightarrow> enc_state \<Rightarrow> enc_state" where
  "derEncStep t st = (map_option (\<lambda>out. out @ t) (fst st), snd st + length t)"

definition derTSEQEncStart :: "nat \<Rightarrow> octet list" where
  "derTSEQEncStart tag = derTEnc tag @ [0]"

definition derTSEQEncStop :: "enc_anchor \<Rightarrow> enc_state \<Rightarrow> enc_state" where
  "derTSEQEncStop anchor st =
     (let pos = fst anchor; t_count = length (derTEnc (snd anchor));
          len = snd st - pos - t_count - 1;
          l = derLEnc len
      in (map_option (\<lambda>out. take (pos + t_count) out @ l @ drop (pos + t_count + 1) out) (fst st),
          snd st + (length l - 1)))"

text \<open>
  Constructed elements on the decoding side. The state of a decoder is the
  octets left at its pointer with the number of octets consumed. The anchor of
  \<^verbatim>\<open>derTSEQDecStart\<close> is the position where the element ends; \<^verbatim>\<open>derTSEQDecStop\<close>
  succeeds (consuming nothing) exactly at that position.
\<close>

type_synonym dec_state = "octet list \<times> nat"

definition derDecStep :: "nat \<Rightarrow> dec_state \<Rightarrow> dec_state" where
  "derDecStep t st = (drop t (fst st), snd st + t)"

definition derTSEQDecStart :: "dec_state \<Rightarrow> nat \<Rightarrow> (nat \<times> nat) option" where
  "derTSEQDecStart st tag = do {
     t \<leftarrow> derTDec2 (fst st) tag;
     (len, l) \<leftarrow> derLDec (drop t (fst st));
     Some (snd st + t + l + len, t + l)
   }"

definition derTSEQDecStop :: "dec_state \<Rightarrow> nat \<Rightarrow> nat option" where
  "derTSEQDecStop st anchor = (if snd st = anchor then Some 0 else None)"

text \<open>\<^verbatim>\<open>memIsZero(buf, count)\<close>.\<close>

definition memIsZero :: "octet list \<Rightarrow> nat \<Rightarrow> bool" where
  "memIsZero buf count = list_all (\<lambda>x. x = 0) (take count buf)"

text \<open>Writing \<open>src\<close> at the start of the buffer \<open>buf\<close>.\<close>

definition memCopy :: "octet list \<Rightarrow> octet list \<Rightarrow> octet list" where
  "memCopy buf src = take (length buf) (src @ drop (length src) buf)"

subsection \<open>Identifiers\<close>

definition oid_bign_pubkey :: "nat list" where
  "oid_bign_pubkey = [1, 2, 112, 0, 2, 0, 34, 101, 45, 2, 1]"

definition oid_eid_access :: "nat list" where
  "oid_eid_access = [1, 2, 112, 0, 2, 0, 34, 101, 79, 6, 1]"

definition oid_esign_access :: "nat list" where
  "oid_esign_access = [1, 2, 112, 0, 2, 0, 34, 101, 79, 6, 2]"

subsection \<open>Signing and verifying\<close>

text \<open>
  The three branches of \<^verbatim>\<open>btokSign\<close> and \<^verbatim>\<open>btokVerify\<close> differ in the curve, the
  hash function and the identifier of the hash only: load the parameters, hash,
  encode the identifier, and assert that its code has 11 octets. \<open>Inr (Inl code)\<close>
  is the early return with \<open>code\<close>.
\<close>

definition load_and_hash ::
  "'p crypto \<Rightarrow> string \<Rightarrow> err_t \<times> octet list \<Rightarrow> string \<Rightarrow> assert_id \<Rightarrow>
   assert_id + (err_t + 'p \<times> octet list \<times> octet list)" where
  "load_and_hash env curve hashed hash_oid a =
     (case bignStdParams env curve of
        (code, params) \<Rightarrow>
          if code \<noteq> ERR_OK then Inr (Inl code)
          else case hashed of
            (code, hash) \<Rightarrow>
              if code \<noteq> ERR_OK then Inr (Inl code)
              else case bignOidToDER env hash_oid of
                (code, oid_der) \<Rightarrow>
                  if code \<noteq> ERR_OK then Inr (Inl code)
                  else if length oid_der \<noteq> 11 then Inl a
                  else Inr (Inr (params, oid_der, hash)))"

definition btokSign ::
  "'p crypto \<Rightarrow> octet list \<Rightarrow> octet list \<Rightarrow> nat \<Rightarrow> assert_id + err_t \<times> octet list" where
  "btokSign env buf privkey privkey_len =
     (if \<not> (privkey_len = 32 \<or> privkey_len = 48 \<or> privkey_len = 64) then Inl ASSERT_Sign_pre
      else if \<not> blobCreate env (sizeof_bign_params env + 16 + 2 * privkey_len)
      then Inr (ERR_OUTOFMEMORY, [])
      else
        bindA
          (if privkey_len = 32 then
             load_and_hash env ''1.2.112.0.2.0.34.101.45.3.1'' (beltHash env buf)
               ''1.2.112.0.2.0.34.101.31.81'' ASSERT_Sign_oid
           else if privkey_len = 48 then
             load_and_hash env ''1.2.112.0.2.0.34.101.45.3.2'' (bashHash env 192 buf)
               ''1.2.112.0.2.0.34.101.77.12'' ASSERT_Sign_oid
           else
             load_and_hash env ''1.2.112.0.2.0.34.101.45.3.3'' (bashHash env 256 buf)
               ''1.2.112.0.2.0.34.101.77.13'' ASSERT_Sign_oid)
          (\<lambda>r. case r of
             Inl code \<Rightarrow> Inr (code, [])
           | Inr (params, oid_der, hash) \<Rightarrow>
               let t = (if rngIsValid env then rngStepR env privkey_len else [])
               in Inr (bignSign2 env params oid_der hash privkey t)))"

definition btokVerify ::
  "'p crypto \<Rightarrow> octet list \<Rightarrow> octet list \<Rightarrow> octet list \<Rightarrow> nat \<Rightarrow> assert_id + err_t" where
  "btokVerify env buf sg pub pub_len =
     (if \<not> (pub_len = 64 \<or> pub_len = 96 \<or> pub_len = 128) then Inl ASSERT_Verify_pre
      else if \<not> blobCreate env (sizeof_bign_params env + 16 + pub_len div 2)
      then Inr ERR_OUTOFMEMORY
      else
        bindA
          (if pub_len = 64 then
             load_and_hash env ''1.2.112.0.2.0.34.101.45.3.1'' (beltHash env buf)
               ''1.2.112.0.2.0.34.101.31.81'' ASSERT_Verify_oid
           else if pub_len = 96 then
             load_and_hash env ''1.2.112.0.2.0.34.101.45.3.2'' (bashHash env 192 buf)
               ''1.2.112.0.2.0.34.101.77.12'' ASSERT_Verify_oid
           else
             load_and_hash env ''1.2.112.0.2.0.34.101.45.3.3'' (bashHash env 256 buf)
               ''1.2.112.0.2.0.34.101.77.13'' ASSERT_Verify_oid)
          (\<lambda>r. case r of
             Inl code \<Rightarrow> Inr code
           | Inr (params, oid_der, hash) \<Rightarrow>
               let code = bignValPubkey env params (take pub_len pub)
               in if code \<noteq> ERR_OK then Inr code
                  else Inr (bignVerify env params oid_der hash sg (take pub_len pub))))"

subsection \<open>The body of a certificate\<close>

text \<open>
  The steps of \<^verbatim>\<open>btokCVCBodyEnc\<close> once its assertions have passed; \<open>auth\<close> and
  \<open>hold\<close> are the codes of the two names. \<open>body\<close> says whether the output pointer
  is non-null. The three nested elements of the function are written as
  definitions of their own, in the order of the source.
\<close>

definition enc_PubKey :: "btok_cvc_t \<Rightarrow> enc_state \<Rightarrow> enc_state" where
  "enc_PubKey cvc st0 =
     (let PubKey = (snd st0, 0x7F49);
          st = derEncStep (derTSEQEncStart 0x7F49) st0;
          st = derEncStep (derOIDEnc oid_bign_pubkey) st;
          st = derEncStep (derBITEnc (pubkey cvc) (8 * pubkey_len cvc)) st
      in derTSEQEncStop PubKey st)"

definition enc_CertHAT :: "btok_cvc_t \<Rightarrow> enc_state \<Rightarrow> enc_state" where
  "enc_CertHAT cvc st0 =
     (if \<not> memIsZero (hat_eid cvc) 5 then
        let CertHAT = (snd st0, 0x7F4C);
            st = derEncStep (derTSEQEncStart 0x7F4C) st0;
            st = derEncStep (derOIDEnc oid_eid_access) st;
            st = derEncStep (derOCTEnc (hat_eid cvc) 5) st
        in derTSEQEncStop CertHAT st
      else st0)"

definition enc_CVExt :: "btok_cvc_t \<Rightarrow> enc_state \<Rightarrow> enc_state" where
  "enc_CVExt cvc st0 =
     (if \<not> memIsZero (hat_esign cvc) 2 then
        let CVExt = (snd st0, 0x65);
            st = derEncStep (derTSEQEncStart 0x65) st0;
            DDT = (snd st, 0x73);
            st = derEncStep (derTSEQEncStart 0x73) st;
            st = derEncStep (derOIDEnc oid_esign_access) st;
            st = derEncStep (derOCTEnc (hat_esign cvc) 2) st;
            st = derTSEQEncStop DDT st
        in derTSEQEncStop CVExt st
      else st0)"

definition btokCVCBodyEnc_steps ::
  "bool \<Rightarrow> btok_cvc_t \<Rightarrow> octet list \<Rightarrow> octet list \<Rightarrow> enc_state" where
  "btokCVCBodyEnc_steps body cvc auth hold =
     (let st = (if body then Some [] else None, 0);
          CertBody = (snd st, 0x7F4E);
          st = derEncStep (derTSEQEncStart 0x7F4E) st;
          st = derEncStep (derTSIZEEnc 0x5F29 0) st;
          st = derEncStep auth st;
          st = enc_PubKey cvc st;
          st = derEncStep hold st;
          st = enc_CertHAT cvc st;
          st = derEncStep (derTOCTEnc 0x5F25 (from_date cvc) 6) st;
          st = derEncStep (derTOCTEnc 0x5F24 (until cvc) 6) st;
          st = enc_CVExt cvc st
      in derTSEQEncStop CertBody st)"

text \<open>
  \<^verbatim>\<open>btokCVCBodyEnc\<close>: the asserted precondition, then the steps; a name that
  \<^verbatim>\<open>derTPSTREnc\<close> refuses fails the assertion of its \<^verbatim>\<open>derEncStep\<close>.
\<close>

definition btokCVCBodyEnc :: "bool \<Rightarrow> btok_cvc_t \<Rightarrow> assert_id + enc_state" where
  "btokCVCBodyEnc body cvc =
     bindA (btokCVCInfoSeemsValid cvc) (\<lambda>ok.
       if \<not> ok then Inl ASSERT_BodyEnc_pre
       else case derTPSTREnc 0x42 (authority cvc) of
         None \<Rightarrow> Inl ASSERT_EncStep
       | Some auth \<Rightarrow>
           (case derTPSTREnc 0x5F20 (holder cvc) of
              None \<Rightarrow> Inl ASSERT_EncStep
            | Some hold \<Rightarrow> Inr (btokCVCBodyEnc_steps body cvc auth hold)))"

text \<open>
  \<^verbatim>\<open>btokCVCBodyDec\<close> returns the decoded record with the number of octets
  consumed, \<open>None\<close> for \<^verbatim>\<open>SIZE_MAX\<close> (the content of the target record is then
  left open, as the specification leaves it). The two optional elements are
  written as definitions of their own.
\<close>

definition dec_CertHAT :: "btok_cvc_t \<Rightarrow> dec_state \<Rightarrow> (btok_cvc_t \<times> dec_state) option" where
  "dec_CertHAT cvc st0 =
     (if derStartsWith (fst st0) 0x7F4C then do {
        (CertHAT, t) \<leftarrow> derTSEQDecStart st0 0x7F4C;
        let st = derDecStep t st0;
        t \<leftarrow> derOIDDec2 (fst st) oid_eid_access;
        let st = derDecStep t st;
        (val, t) \<leftarrow> derOCTDec2 (fst st) 5;
        let cvc = cvc\<lparr>hat_eid := val\<rparr>;
        let st = derDecStep t st;
        t \<leftarrow> derTSEQDecStop st CertHAT;
        Some (cvc, derDecStep t st)
      } else Some (cvc, st0))"

definition dec_CVExt :: "btok_cvc_t \<Rightarrow> dec_state \<Rightarrow> (btok_cvc_t \<times> dec_state) option" where
  "dec_CVExt cvc st0 =
     (if derStartsWith (fst st0) 0x65 then do {
        (CVExt, t) \<leftarrow> derTSEQDecStart st0 0x65;
        let st = derDecStep t st0;
        (DDT, t) \<leftarrow> derTSEQDecStart st 0x73;
        let st = derDecStep t st;
        t \<leftarrow> derOIDDec2 (fst st) oid_esign_access;
        let st = derDecStep t st;
        (val, t) \<leftarrow> derOCTDec2 (fst st) 2;
        let cvc = cvc\<lparr>hat_esign := val\<rparr>;
        let st = derDecStep t st;
        t \<leftarrow> derTSEQDecStop st DDT;
        let st = derDecStep t st;
        t \<leftarrow> derTSEQDecStop st CVExt;
        Some (cvc, derDecStep t st)
      } else Some (cvc, st0))"

definition dec_names_key :: "dec_state \<Rightarrow> (btok_cvc_t \<times> dec_state) option" where
  "dec_names_key st0 = do {
     let cvc = cvc_zero;
     t \<leftarrow> derTSIZEDec2 (fst st0) 0x5F29 0;
     let st = derDecStep t st0;
     (str, len, t) \<leftarrow> derTPSTRDec (fst st) 0x42;
     _ \<leftarrow> (if len < 8 \<or> len > 12 then None else Some ());
     let cvc = cvc\<lparr>authority := str\<rparr>;
     let st = derDecStep t st;
     (PubKey, t) \<leftarrow> derTSEQDecStart st 0x7F49;
     let st = derDecStep t st;
     t \<leftarrow> derOIDDec2 (fst st) oid_bign_pubkey;
     let st = derDecStep t st;
     (bits, len, t) \<leftarrow> derBITDec (fst st);
     _ \<leftarrow> (if len \<noteq> 512 \<and> len \<noteq> 768 \<and> len \<noteq> 1024 then None else Some ());
     let cvc = cvc\<lparr>pubkey_len := len div 8\<rparr>;
     let cvc = cvc\<lparr>pubkey := memCopy (pubkey cvc) bits\<rparr>;
     let st = derDecStep t st;
     t \<leftarrow> derTSEQDecStop st PubKey;
     let st = derDecStep t st;
     (str, len, t) \<leftarrow> derTPSTRDec (fst st) 0x5F20;
     _ \<leftarrow> (if len < 8 \<or> len > 12 then None else Some ());
     let cvc = cvc\<lparr>holder := str\<rparr>;
     Some (cvc, derDecStep t st)
   }"

definition btokCVCBodyDec :: "octet list \<Rightarrow> (btok_cvc_t \<times> nat) option" where
  "btokCVCBodyDec body = do {
     let st = (body, 0);
     (CertBody, t) \<leftarrow> derTSEQDecStart st 0x7F4E;
     let st = derDecStep t st;
     (cvc, st) \<leftarrow> dec_names_key st;
     (cvc, st) \<leftarrow> dec_CertHAT cvc st;
     (val, t) \<leftarrow> derTOCTDec2 (fst st) 0x5F25 6;
     let cvc = cvc\<lparr>from_date := val\<rparr>;
     let st = derDecStep t st;
     (val, t) \<leftarrow> derTOCTDec2 (fst st) 0x5F24 6;
     let cvc = cvc\<lparr>until := val\<rparr>;
     let st = derDecStep t st;
     (cvc, st) \<leftarrow> dec_CVExt cvc st;
     t \<leftarrow> derTSEQDecStop st CertBody;
     let st = derDecStep t st;
     Some (cvc, snd st)
   }"

subsection \<open>Creating and parsing a certificate\<close>

text \<open>
  What a call of \<^verbatim>\<open>btokCVCWrap\<close> or \<^verbatim>\<open>btokCVCIss\<close> leaves behind: the returned
  code, the certificate record after the call, the octets written at \<^verbatim>\<open>cert\<close>
  and the value stored through \<^verbatim>\<open>cert_len\<close> (both only on success), and the
  number of calls of \<^verbatim>\<open>btokSign\<close> made.
\<close>

record wrap_result =
  wr_code :: err_t
  wr_cvc :: "btok_cvc_t option"
  wr_cert :: "octet list option"
  wr_cert_len :: "nat option"
  wr_signed :: nat

definition wrap_fail :: "err_t \<Rightarrow> btok_cvc_t option \<Rightarrow> nat \<Rightarrow> wrap_result" where
  "wrap_fail code cvcp nsigned =
     \<lparr>wr_code = code, wr_cvc = cvcp, wr_cert = None, wr_cert_len = None, wr_signed = nsigned\<rparr>"

definition written :: "octet list option \<Rightarrow> octet list" where
  "written out = (case out of None \<Rightarrow> [] | Some bs \<Rightarrow> bs)"

text \<open>
  Advancing over the body that \<^verbatim>\<open>btokCVCBodyEnc\<close> has written at the pointer:
  \<^verbatim>\<open>cert = cert ? cert + t : 0, count += t\<close>.
\<close>

definition enc_skip :: "enc_state \<Rightarrow> enc_state \<Rightarrow> enc_state" where
  "enc_skip body st =
     (map_option (\<lambda>out. out @ written (fst body)) (fst st), snd st + snd body)"

text \<open>The first part of \<^verbatim>\<open>btokCVCWrap\<close>: building the public key when it is absent.\<close>

definition wrap_pubkey ::
  "'p crypto \<Rightarrow> btok_cvc_t \<Rightarrow> octet list \<Rightarrow> nat \<Rightarrow> err_t \<times> btok_cvc_t" where
  "wrap_pubkey env cvc privkey privkey_len =
     (if pubkey_len cvc = 0 then
        (case btokPubkeyCalc env privkey privkey_len of
           (code, pub) \<Rightarrow>
             let cvc = cvc\<lparr>pubkey := memCopy (pubkey cvc) pub\<rparr>
             in if code \<noteq> ERR_OK then (code, cvc)
                else
                  let cvc = cvc\<lparr>pubkey_len := 2 * privkey_len\<rparr>
                  in (ERR_OK,
                      cvc\<lparr>pubkey := take (pubkey_len cvc) (pubkey cvc) @
                         replicate (length (pubkey cvc) - pubkey_len cvc) 0\<rparr>))
      else (ERR_OK, cvc))"

text \<open>
  \<open>cert\<close> says whether the output pointer is non-null, \<open>cert_len\<close> whether the
  length pointer is.
\<close>

definition btokCVCWrap ::
  "'p crypto \<Rightarrow> bool \<Rightarrow> bool \<Rightarrow> btok_cvc_t option \<Rightarrow> octet list \<Rightarrow> nat \<Rightarrow>
   assert_id + wrap_result" where
  "btokCVCWrap env cert cert_len cvcp privkey privkey_len =
     (case cvcp of
        None \<Rightarrow> Inr (wrap_fail ERR_BAD_INPUT None 0)
      | Some cvc \<Rightarrow>
          if privkey_len \<noteq> 32 \<and> privkey_len \<noteq> 48 \<and> privkey_len \<noteq> 64
          then Inr (wrap_fail ERR_BAD_INPUT (Some cvc) 0)
          else case wrap_pubkey env cvc privkey privkey_len of
            (code, cvc) \<Rightarrow>
              if code \<noteq> ERR_OK then Inr (wrap_fail code (Some cvc) 0)
              else
                bindA (btokCVCCheck env (Some cvc)) (\<lambda>code.
                  if code \<noteq> ERR_OK then Inr (wrap_fail code (Some cvc) 0)
                  else
                    let st = (if cert then Some [] else None, 0);
                        CVCert = (snd st, 0x7F21);
                        st = derEncStep (derTSEQEncStart 0x7F21) st
                    in
                    bindA (btokCVCBodyEnc cert cvc) (\<lambda>body.
                      bindA
                        (if cert then
                           bindA (btokSign env (written (fst body)) privkey privkey_len)
                             (\<lambda>(code, sg). Inr (code, cvc\<lparr>sig := memCopy (sig cvc) sg\<rparr>, 1))
                         else Inr (ERR_OK, cvc, 0))
                        (\<lambda>(code, cvc, nsigned).
                           if code \<noteq> ERR_OK then Inr (wrap_fail code (Some cvc) nsigned)
                           else
                             let st = enc_skip body st;
                                 cvc = cvc\<lparr>sig_len := privkey_len + privkey_len div 2\<rparr>;
                                 st = derEncStep (derTOCTEnc 0x5F37 (sig cvc) (sig_len cvc)) st;
                                 st = derTSEQEncStop CVCert st
                             in Inr \<lparr>wr_code = ERR_OK, wr_cvc = Some cvc, wr_cert = fst st,
                                     wr_cert_len = (if cert_len then Some (snd st) else None),
                                     wr_signed = nsigned\<rparr>))))"

text \<open>
  The length of the signature in \<^verbatim>\<open>btokCVCUnwrap\<close>: from the length of the public
  key when one is given, otherwise the first of 48, 72, 96 with which the
  signature decodes.
\<close>

definition unwrap_sig_len :: "octet list \<Rightarrow> nat \<Rightarrow> nat option" where
  "unwrap_sig_len der pub_len =
     (if pub_len = 0 then
        (if derDec3 der 0x5F37 48 \<noteq> None then Some 48
         else if derDec3 der 0x5F37 72 \<noteq> None then Some 72
         else if derDec3 der 0x5F37 96 \<noteq> None then Some 96
         else None)
      else Some (pub_len - pub_len div 4))"

text \<open>
  \<^verbatim>\<open>btokCVCUnwrap\<close> returns its code with the target record (\<open>None\<close> where the body
  decoder failed half-way). The certificate is the list \<open>cert\<close>, \<^verbatim>\<open>cert_len\<close> its
  length; the buffers do not overlap the record.
\<close>

definition btokCVCUnwrap ::
  "'p crypto \<Rightarrow> btok_cvc_t option \<Rightarrow> octet list \<Rightarrow> octet list \<Rightarrow> nat \<Rightarrow>
   assert_id + err_t \<times> btok_cvc_t option" where
  "btokCVCUnwrap env cvcp cert pub pub_len =
     (case cvcp of
        None \<Rightarrow> Inr (ERR_BAD_INPUT, None)
      | Some cvc0 \<Rightarrow>
          if pub_len \<noteq> 0 \<and> pub_len \<noteq> 64 \<and> pub_len \<noteq> 96 \<and> pub_len \<noteq> 128
          then Inr (ERR_BAD_INPUT, Some cvc0)
          else
            let st = (cert, 0) in
            case derTSEQDecStart st 0x7F21 of
              None \<Rightarrow> Inr (ERR_BAD_FORMAT, Some cvc_zero)
            | Some (CVCert, t) \<Rightarrow>
                let st = derDecStep t st in
                (case btokCVCBodyDec (fst st) of
                   None \<Rightarrow> Inr (ERR_BAD_FORMAT, None)
                 | Some (cvc, t) \<Rightarrow>
                     let body = take t (fst st);
                         st = derDecStep t st
                     in
                     (case unwrap_sig_len (fst st) pub_len of
                        None \<Rightarrow> Inr (ERR_BAD_FORMAT, Some cvc)
                      | Some sl \<Rightarrow>
                          let cvc = cvc\<lparr>sig_len := sl\<rparr> in
                          (case derTOCTDec2 (fst st) 0x5F37 (sig_len cvc) of
                             None \<Rightarrow> Inr (ERR_BAD_FORMAT, Some cvc)
                           | Some (val, t) \<Rightarrow>
                               let cvc = cvc\<lparr>sig := memCopy (sig cvc) val\<rparr>;
                                   st = derDecStep t st
                               in
                               bindA
                                 (if pub_len \<noteq> 0
                                  then btokVerify env body (take (sig_len cvc) (sig cvc)) pub pub_len
                                  else Inr ERR_OK)
                                 (\<lambda>code.
                                    if code \<noteq> ERR_OK then Inr (code, Some cvc)
                                    else case derTSEQDecStop st CVCert of
                                      None \<Rightarrow> Inr (ERR_BAD_FORMAT, Some cvc)
                                    | Some t \<Rightarrow>
                                        bindA (btokCVCCheck env (Some cvc))
                                          (\<lambda>code. Inr (code, Some cvc)))))))"

subsection \<open>Issuing a certificate\<close>

definition btokCVCIss ::
  "'p crypto \<Rightarrow> bool \<Rightarrow> bool \<Rightarrow> btok_cvc_t option \<Rightarrow> octet list \<Rightarrow> octet list \<Rightarrow> nat \<Rightarrow>
   assert_id + wrap_result" where
  "btokCVCIss env cert cert_len cvcp certa privkeya privkeya_len =
     (if \<not> blobCreate env (sizeof_btok_cvc_t env) then Inr (wrap_fail ERR_OUTOFMEMORY cvcp 0)
      else
        bindA (btokCVCUnwrap env (Some cvc_zero) certa [] 0) (\<lambda>(code, cvcap).
          case (code, cvcap) of
            (ERR_OK, Some cvca) \<Rightarrow>
              let code = btokKeypairVal env privkeya privkeya_len (pubkey cvca) (pubkey_len cvca)
              in if code \<noteq> ERR_OK then Inr (wrap_fail code cvcp 0)
                 else
                   bindA (btokCVCCheck2 env cvcp (Some cvca)) (\<lambda>code.
                     if code \<noteq> ERR_OK then Inr (wrap_fail code cvcp 0)
                     else btokCVCWrap env cert cert_len cvcp privkeya privkeya_len)
          | _ \<Rightarrow> Inr (wrap_fail code cvcp 0)))"

subsection \<open>A test double of the collaborators\<close>

text \<open>
  Concrete stand-ins for the external functions, used only to evaluate the model
  on concrete inputs: the parameters are the security level, the public key is
  the private key twice, the hash is the sum of the octets, a signature is the
  private key added to the hash, extended to its length.
\<close>

definition toy_hash :: "nat \<Rightarrow> octet list \<Rightarrow> octet list" where
  "toy_hash n buf = replicate n (foldr (+) buf 0)"

definition toy_sign :: "nat \<Rightarrow> octet list \<Rightarrow> octet list \<Rightarrow> octet list" where
  "toy_sign l hash privkey =
     map2 (+) (take (l div 4) hash) (take (l div 4) privkey) @ take (l div 8) privkey"

definition test_env :: "nat crypto" where
  "test_env =
     \<lparr>bignStdParams = (\<lambda>oid.
        if oid = ''1.2.112.0.2.0.34.101.45.3.1'' then (ERR_OK, 128)
        else if oid = ''1.2.112.0.2.0.34.101.45.3.2'' then (ERR_OK, 192)
        else if oid = ''1.2.112.0.2.0.34.101.45.3.3'' then (ERR_OK, 256)
        else (ERR_OTHER 1, 0)),
      bignValPubkey = (\<lambda>l pub.
        if length pub = l div 2 \<and> take (l div 4) pub = drop (l div 4) pub then ERR_OK
        else ERR_BAD_PUBKEY),
      bignCalcPubkey = (\<lambda>l privkey. (ERR_OK, take (l div 4) privkey @ take (l div 4) privkey)),
      bignValKeypair = (\<lambda>l privkey pub.
        if pub = take (l div 4) privkey @ take (l div 4) privkey then ERR_OK
        else ERR_BAD_KEYPAIR),
      bignOidToDER = (\<lambda>oid. (ERR_OK, replicate 11 6)),
      beltHash = (\<lambda>buf. (ERR_OK, toy_hash 32 buf)),
      bashHash = (\<lambda>l buf. (ERR_OK, toy_hash (l div 4) buf)),
      bignSign2 = (\<lambda>l oid_der hash privkey t. (ERR_OK, toy_sign l hash privkey)),
      bignVerify = (\<lambda>l oid_der hash sg pub.
        if sg = toy_sign l hash (take (l div 4) pub) then ERR_OK else ERR_BAD_SIG),
      rngIsValid = False,
      rngStepR = (\<lambda>n. replicate n 0),
      blobCreate = (\<lambda>n. True),
      sizeof_bign_params = 1024,
      sizeof_btok_cvc_t = 288\<rparr>"

text \<open>A certificate record of the test: names of 8 octets, a key of 64 octets.\<close>

definition test_cvc :: btok_cvc_t where
  "test_cvc =
     \<lparr>authority = [0x42, 0x59, 0x43, 0x41, 0x30, 0x30, 0x30, 0x30],
      holder = [0x42, 0x59, 0x43, 0x41, 0x31, 0x30, 0x30, 0x30],
      pubkey = replicate 32 7 @ replicate 32 7 @ replicate 64 0,
      pubkey_len = 64,
      hat_eid = [1, 2, 3, 4, 5],
      hat_esign = [0, 0],
      from_date = [2, 0, 0, 2, 2, 9],
      until = [2, 4, 0, 2, 2, 9],
      sig = replicate 96 0,
      sig_len = 0\<rparr>"

text \<open>The same record with no key yet and a key buffer that is not clean.\<close>

definition test_cvc_nokey :: btok_cvc_t where
  "test_cvc_nokey = test_cvc\<lparr>pubkey := replicate 128 9, pubkey_len := 0\<rparr>"

subsection \<open>The validators as the specification words them\<close>

text \<open>
  The date check of the specification (section 4.1), on the decimal values of the
  octets: six digits, year at least 19, month 1..12, day 1..31, no day 31 in
  months 4, 6, 9, 11, and February up to 29 only when the year is divisible by 4,
  otherwise up to 28.
\<close>

definition check_date :: "octet list \<Rightarrow> bool" where
  "check_date date =
     (length date = 6 \<and> list_all (\<lambda>x. unat x \<le> 9) date \<and>
      (let y = 10 * unat (date ! 0) + unat (date ! 1);
           m = 10 * unat (date ! 2) + unat (date ! 3);
           d = 10 * unat (date ! 4) + unat (date ! 5)
       in 19 \<le> y \<and> 1 \<le> m \<and> m \<le> 12 \<and> 1 \<le> d \<and> d \<le> 31 \<and>
          (d = 31 \<longrightarrow> m \<noteq> 4 \<and> m \<noteq> 6 \<and> m \<noteq> 9 \<and> m \<noteq> 11) \<and>
          (m = 2 \<longrightarrow> d \<le> 29 \<and> (d = 29 \<longrightarrow> y mod 4 = 0))))"

text \<open>
  \<open>left\<close> exceeds \<open>right\<close> in the byte-wise lexicographic order of the octets.
\<close>

definition date_exceeds :: "octet list \<Rightarrow> octet list \<Rightarrow> bool" where
  "date_exceeds left right = ord_class.lexordp right left"

subsection \<open>The wire format as the specification draws it\<close>

text \<open>
  The schema of the \<^verbatim>\<open>CertificateBody\<close> (section 4.3) and of the \<^verbatim>\<open>CVCertificate\<close>
  (section 4.4), element by element: every element is its tag, its definite
  length and its content; an optional element is empty when its template is all
  zero.
\<close>

definition PubKey_der :: "btok_cvc_t \<Rightarrow> octet list" where
  "PubKey_der cvc =
     derEnc 0x7F49 (derOIDEnc oid_bign_pubkey @ derBITEnc (pubkey cvc) (8 * pubkey_len cvc))"

definition CertHAT_der :: "btok_cvc_t \<Rightarrow> octet list" where
  "CertHAT_der cvc =
     (if memIsZero (hat_eid cvc) 5 then []
      else derEnc 0x7F4C (derOIDEnc oid_eid_access @ derOCTEnc (hat_eid cvc) 5))"

definition CVExt_der :: "btok_cvc_t \<Rightarrow> octet list" where
  "CVExt_der cvc =
     (if memIsZero (hat_esign cvc) 2 then []
      else derEnc 0x65 (derEnc 0x73 (derOIDEnc oid_esign_access @ derOCTEnc (hat_esign cvc) 2)))"

definition body_content :: "btok_cvc_t \<Rightarrow> octet list" where
  "body_content cvc =
     derTSIZEEnc 0x5F29 0 @
     derEnc 0x42 (authority cvc) @
     PubKey_der cvc @
     derEnc 0x5F20 (holder cvc) @
     CertHAT_der cvc @
     derTOCTEnc 0x5F25 (from_date cvc) 6 @
     derTOCTEnc 0x5F24 (until cvc) 6 @
     CVExt_der cvc"

definition CertificateBody :: "btok_cvc_t \<Rightarrow> octet list" where
  "CertificateBody cvc = derEnc 0x7F4E (body_content cvc)"

definition CVCertificate :: "btok_cvc_t \<Rightarrow> octet list" where
  "CVCertificate cvc =
     derEnc 0x7F21 (CertificateBody cvc @ derTOCTEnc 0x5F37 (sig cvc) (sig_len cvc))"

text \<open>The state of an encoder that has written \<open>out\<close> (or counted its length).\<close>

definition enc_at :: "bool \<Rightarrow> octet list \<Rightarrow> enc_state" where
  "enc_at b out = (if b then Some out else None, length out)"

section \<open>Properties\<close>

subsection \<open>Dates\<close>

lemma two_digits:
  fixes a b :: octet
  assumes "a \<le> 9" "b \<le> 9"
  shows "unat (10 * a + b) = 10 * unat a + unat b"
proof -
  have a: "unat a \<le> 9" and b: "unat b \<le> 9"
    using assms by (simp_all add: word_le_nat_alt)
  have "unat (10 * a + b) = (10 * unat a + unat b) mod 256"
    by (simp add: unat_word_ariths mod_simps)
  also have "\<dots> = 10 * unat a + unat b"
    using a b by simp
  finally show ?thesis .
qed

lemma date_valid_length: "btokCVCDateIsValid xs \<Longrightarrow> length xs = 6"
  by (induction xs rule: btokCVCDateIsValid.induct) auto

lemma octet_le_numeral: "(w::octet) \<le> numeral k \<longleftrightarrow> unat w \<le> unat (numeral k :: octet)"
  by (simp add: word_le_nat_alt)

lemma octet_ge_numeral: "(numeral k::octet) \<le> w \<longleftrightarrow> unat (numeral k :: octet) \<le> unat w"
  by (simp add: word_le_nat_alt)

lemma octet_ge_one: "(1::octet) \<le> w \<longleftrightarrow> 1 \<le> unat w"
  by (simp add: word_le_nat_alt)

lemma octet_gt_numeral: "(w::octet) > numeral k \<longleftrightarrow> unat w > unat (numeral k :: octet)"
  by (simp add: word_less_nat_alt)

lemma octet_eq_numeral: "(w::octet) = numeral k \<longleftrightarrow> unat w = unat (numeral k :: octet)"
  by (simp add: word_unat_eq_iff)

lemma octet_mod4: "((w::octet) mod 4 = 0) \<longleftrightarrow> unat w mod 4 = 0"
  by (simp add: word_unat_eq_iff unat_mod)

lemma calendar_forms:
  fixes y m d :: nat
  shows "(19 \<le> y \<and> 1 \<le> m \<and> m \<le> 12 \<and> 1 \<le> d \<and> d \<le> 31 \<and>
           \<not> (d = 31 \<and> (m = 4 \<or> m = 6 \<or> m = 9 \<or> m = 11)) \<and>
           \<not> (m = 2 \<and> (d > 29 \<or> d = 29 \<and> y mod 4 \<noteq> 0))) =
         (19 \<le> y \<and> 1 \<le> m \<and> m \<le> 12 \<and> 1 \<le> d \<and> d \<le> 31 \<and>
          (d = 31 \<longrightarrow> m \<noteq> 4 \<and> m \<noteq> 6 \<and> m \<noteq> 9 \<and> m \<noteq> 11) \<and>
          (m = 2 \<longrightarrow> d \<le> 29 \<and> (d = 29 \<longrightarrow> y mod 4 = 0)))"
  by (auto simp: not_less)

lemma calendar_words:
  fixes Y M D :: octet
  shows "(Y \<ge> 19 \<and> 1 \<le> M \<and> M \<le> 12 \<and> 1 \<le> D \<and> D \<le> 31 \<and>
           \<not> (D = 31 \<and> (M = 4 \<or> M = 6 \<or> M = 9 \<or> M = 11)) \<and>
           \<not> (M = 2 \<and> (D > 29 \<or> D = 29 \<and> Y mod 4 \<noteq> 0))) =
        (19 \<le> unat Y \<and> 1 \<le> unat M \<and> unat M \<le> 12 \<and> 1 \<le> unat D \<and> unat D \<le> 31 \<and>
           \<not> (unat D = 31 \<and> (unat M = 4 \<or> unat M = 6 \<or> unat M = 9 \<or> unat M = 11)) \<and>
           \<not> (unat M = 2 \<and> (unat D > 29 \<or> unat D = 29 \<and> unat Y mod 4 \<noteq> 0)))"
  by (simp only: octet_le_numeral octet_ge_numeral octet_ge_one octet_gt_numeral
        octet_eq_numeral octet_mod4) simp

lemma date_digits:
  assumes "a \<le> 9" "b \<le> 9" "c \<le> 9" "d \<le> 9" "e \<le> 9" "f \<le> 9"
  shows "btokCVCDateIsValid [a, b, c, d, e, f] = check_date [a, b, c, d, e, f]"
proof -
  have nots: "\<not> (9 < a \<or> 9 < b \<or> 9 < c \<or> 9 < d \<or> 9 < e \<or> 9 < f)"
    using assms by (simp add: not_less)
  have L: "btokCVCDateIsValid [a, b, c, d, e, f] =
     (19 \<le> 10 * a + b \<and> 1 \<le> 10 * c + d \<and> 10 * c + d \<le> 12 \<and>
      1 \<le> 10 * e + f \<and> 10 * e + f \<le> 31 \<and>
      \<not> (10 * e + f = 31 \<and>
         (10 * c + d = 4 \<or> 10 * c + d = 6 \<or> 10 * c + d = 9 \<or> 10 * c + d = 11)) \<and>
      \<not> (10 * c + d = 2 \<and>
         (10 * e + f > 29 \<or> 10 * e + f = 29 \<and> (10 * a + b) mod 4 \<noteq> 0)))"
    unfolding btokCVCDateIsValid.simps Let_def using nots by (simp only: if_False)
  have R: "check_date [a, b, c, d, e, f] =
     (19 \<le> unat (10 * a + b) \<and> 1 \<le> unat (10 * c + d) \<and> unat (10 * c + d) \<le> 12 \<and>
      1 \<le> unat (10 * e + f) \<and> unat (10 * e + f) \<le> 31 \<and>
      (unat (10 * e + f) = 31 \<longrightarrow> unat (10 * c + d) \<noteq> 4 \<and> unat (10 * c + d) \<noteq> 6 \<and>
          unat (10 * c + d) \<noteq> 9 \<and> unat (10 * c + d) \<noteq> 11) \<and>
      (unat (10 * c + d) = 2 \<longrightarrow> unat (10 * e + f) \<le> 29 \<and>
          (unat (10 * e + f) = 29 \<longrightarrow> unat (10 * a + b) mod 4 = 0)))"
    using assms by (simp add: check_date_def Let_def two_digits word_le_nat_alt)
  show ?thesis
    unfolding L R calendar_words by (rule calendar_forms)
qed

lemma date_not_digits:
  assumes "\<not> (a \<le> 9 \<and> b \<le> 9 \<and> c \<le> 9 \<and> d \<le> 9 \<and> e \<le> 9 \<and> f \<le> 9)"
  shows "btokCVCDateIsValid [a, b, c, d, e, f] = check_date [a, b, c, d, e, f]"
proof -
  have "9 < a \<or> 9 < b \<or> 9 < c \<or> 9 < d \<or> 9 < e \<or> 9 < f"
    using assms by (simp add: not_le)
  then have L: "\<not> btokCVCDateIsValid [a, b, c, d, e, f]"
    unfolding btokCVCDateIsValid.simps by (simp only: if_True not_False_eq_True)
  have "\<not> list_all (\<lambda>x. unat x \<le> 9) [a, b, c, d, e, f]"
    using assms by (simp add: word_le_nat_alt)
  then have R: "\<not> check_date [a, b, c, d, e, f]"
    unfolding check_date_def by blast
  show ?thesis using L R by blast
qed

lemma date_valid_check_date: "btokCVCDateIsValid date = check_date date"
proof (cases "length date = 6")
  case True
  then obtain a b c d e f where "date = [a, b, c, d, e, f]"
    by (auto simp: length_Suc_conv eval_nat_numeral)
  then show ?thesis using date_digits date_not_digits by blast
next
  case False
  then show ?thesis using date_valid_length by (auto simp: check_date_def)
qed

text \<open>
  C5. The date validator accepts a 6-octet date exactly when the date check of the
  specification does: every octet a digit 0..9, two-digit year at least 19, month
  in 1..12, day in 1..31, no day 31 in months 4, 6, 9 and 11, and in February at
  most 29 days, with 29 only in a year divisible by 4. So 20-02-29 and 24-02-29
  are accepted and 21-02-29 is rejected.
\<close>

theorem date_validator_refines_check_date:
  "btokCVCDateIsValid date = check_date date \<and>
   btokCVCDateIsValid [2, 0, 0, 2, 2, 9] \<and>
   btokCVCDateIsValid [2, 4, 0, 2, 2, 9] \<and>
   \<not> btokCVCDateIsValid [2, 1, 0, 2, 2, 9]"
  by (simp add: date_valid_check_date check_date_def)

theorem date_validator_refines_check_date_witness:
  "btokCVCDateIsValid [1, 9, 0, 1, 0, 1] \<and> check_date [1, 9, 0, 1, 0, 1] \<and>
   \<not> btokCVCDateIsValid [2, 3, 0, 4, 3, 1] \<and> \<not> check_date [2, 3, 0, 4, 3, 1]"
proof -
  have a: "check_date [1, 9, 0, 1, 0, 1]" and b: "\<not> check_date [2, 3, 0, 4, 3, 1]"
    by (simp_all add: check_date_def)
  show ?thesis
    using a b date_validator_refines_check_date [of "[1, 9, 0, 1, 0, 1]"]
      date_validator_refines_check_date [of "[2, 3, 0, 4, 3, 1]"]
    by blast
qed

subsection \<open>The validators\<close>

lemma memCmp_lexord:
  "length l = length r \<Longrightarrow> (memCmp l r \<le> 0) = (\<not> ord_class.lexordp r l)"
proof (induction l r rule: memCmp.induct)
  case (1 x xs y ys)
  then show ?case by (auto simp: not_less)
qed auto

lemma date_leq_valid:
  assumes "btokCVCDateIsValid l" "btokCVCDateIsValid r"
  shows "btokCVCDateLeq l r = Inr (\<not> date_exceeds l r)"
  using assms date_valid_length [of l] date_valid_length [of r]
  by (simp add: btokCVCDateLeq_def date_exceeds_def memCmp_lexord)

lemma check_chain:
  "btokCVCCheck env (Some cvc) = Inr
     (if \<not> btokCVCNameIsValid (authority cvc) \<or> \<not> btokCVCNameIsValid (holder cvc)
      then ERR_BAD_NAME
      else if \<not> btokCVCDateIsValid (from_date cvc) \<or> \<not> btokCVCDateIsValid (until cvc) \<or>
              date_exceeds (from_date cvc) (until cvc)
      then ERR_BAD_DATE
      else btokPubkeyVal env (pubkey cvc) (pubkey_len cvc))"
  by (simp add: btokCVCCheck_def bindA_def date_leq_valid)

lemma info_chain:
  "btokCVCInfoSeemsValid cvc = Inr
     (btokCVCNameIsValid (authority cvc) \<and> btokCVCNameIsValid (holder cvc) \<and>
      btokCVCDateIsValid (from_date cvc) \<and> btokCVCDateIsValid (until cvc) \<and>
      \<not> date_exceeds (from_date cvc) (until cvc) \<and>
      (pubkey_len cvc = 64 \<or> pubkey_len cvc = 96 \<or> pubkey_len cvc = 128))"
  by (simp add: btokCVCInfoSeemsValid_def bindA_def date_leq_valid)

lemma pubkey_val_ok_len:
  "btokPubkeyVal env pub pub_len = ERR_OK \<Longrightarrow> pub_len = 64 \<or> pub_len = 96 \<or> pub_len = 128"
  by (auto simp: btokPubkeyVal_def split: if_splits)

lemma check_ok_fields:
  assumes "btokCVCCheck env (Some cvc) = Inr ERR_OK"
  shows "btokCVCNameIsValid (authority cvc)" "btokCVCNameIsValid (holder cvc)"
    "btokCVCDateIsValid (from_date cvc)" "btokCVCDateIsValid (until cvc)"
    "\<not> date_exceeds (from_date cvc) (until cvc)"
    "btokPubkeyVal env (pubkey cvc) (pubkey_len cvc) = ERR_OK"
    "pubkey_len cvc = 64 \<or> pubkey_len cvc = 96 \<or> pubkey_len cvc = 128"
  using assms pubkey_val_ok_len [of env "pubkey cvc" "pubkey_len cvc"]
  by (auto simp: check_chain split: if_splits)

lemma check_ok_info:
  "btokCVCCheck env (Some cvc) = Inr ERR_OK \<Longrightarrow> btokCVCInfoSeemsValid cvc = Inr True"
  by (simp add: info_chain check_ok_fields)

subsection \<open>The encoders write the schema\<close>

lemma enc_at_init: "(if b then Some [] else None, 0) = enc_at b []"
  by (simp add: enc_at_def)

lemma snd_enc_at: "snd (enc_at b out) = length out"
  by (simp add: enc_at_def)

lemma fst_enc_at: "fst (enc_at b out) = (if b then Some out else None)"
  by (simp add: enc_at_def)

lemma derEncStep_enc_at: "derEncStep t (enc_at b out) = enc_at b (out @ t)"
  by (simp add: derEncStep_def enc_at_def)

lemma derLEnc_nonempty: "length (derLEnc n) \<ge> 1"
  by (simp add: derLEnc_def)

lemma stop_enc_at:
  "derTSEQEncStop (length pre, tag) (enc_at b (pre @ derTSEQEncStart tag @ c)) =
   enc_at b (pre @ derEnc tag c)"
proof -
  have "length (derLEnc (length c)) \<ge> 1" by (rule derLEnc_nonempty)
  then show ?thesis
    by (simp add: derTSEQEncStop_def enc_at_def Let_def derTSEQEncStart_def derEnc_def)
qed

lemma stop_enc_at0:
  "derTSEQEncStop (0, tag) (enc_at b (derTSEQEncStart tag @ c)) = enc_at b (derEnc tag c)"
  using stop_enc_at [of "[]" tag b c] by simp

lemma enc_PubKey_at: "enc_PubKey cvc (enc_at b pre) = enc_at b (pre @ PubKey_der cvc)"
  by (simp add: enc_PubKey_def Let_def derEncStep_enc_at snd_enc_at stop_enc_at PubKey_der_def)

lemma enc_CertHAT_at: "enc_CertHAT cvc (enc_at b pre) = enc_at b (pre @ CertHAT_der cvc)"
  by (simp add: enc_CertHAT_def Let_def derEncStep_enc_at snd_enc_at stop_enc_at CertHAT_der_def)

lemma enc_CVExt_at: "enc_CVExt cvc (enc_at b pre) = enc_at b (pre @ CVExt_der cvc)"
proof -
  have "derTSEQEncStop (length (pre @ derTSEQEncStart 0x65), 0x73)
          (enc_at b ((pre @ derTSEQEncStart 0x65) @ derTSEQEncStart 0x73 @
             derOIDEnc oid_esign_access @ derOCTEnc (hat_esign cvc) 2)) =
        enc_at b ((pre @ derTSEQEncStart 0x65) @
          derEnc 0x73 (derOIDEnc oid_esign_access @ derOCTEnc (hat_esign cvc) 2))"
    by (rule stop_enc_at)
  then show ?thesis
    by (simp add: enc_CVExt_def Let_def derEncStep_enc_at snd_enc_at stop_enc_at CVExt_der_def)
qed

lemma steps_enc_at:
  "btokCVCBodyEnc_steps body cvc (derEnc 0x42 (authority cvc)) (derEnc 0x5F20 (holder cvc))
     = enc_at body (CertificateBody cvc)"
  by (simp add: btokCVCBodyEnc_steps_def Let_def enc_at_init derEncStep_enc_at snd_enc_at
      enc_PubKey_at enc_CertHAT_at enc_CVExt_at stop_enc_at0 CertificateBody_def body_content_def)

lemma body_enc_valid:
  assumes "btokCVCInfoSeemsValid cvc = Inr True"
  shows "btokCVCBodyEnc b cvc = Inr (enc_at b (CertificateBody cvc))"
proof -
  have "btokCVCNameIsValid (authority cvc)" "btokCVCNameIsValid (holder cvc)"
    using assms by (simp_all add: info_chain)
  then have "strIsPrintable (authority cvc)" "strIsPrintable (holder cvc)"
    by (simp_all add: btokCVCNameIsValid_def)
  then show ?thesis
    using assms by (simp add: btokCVCBodyEnc_def bindA_def derTPSTREnc_def steps_enc_at)
qed

lemma body_enc_cases:
  "btokCVCBodyEnc b cvc = Inr (enc_at b (CertificateBody cvc)) \<or>
   btokCVCBodyEnc b cvc = Inl ASSERT_BodyEnc_pre"
proof (cases "btokCVCInfoSeemsValid cvc = Inr True")
  case True
  then show ?thesis by (simp add: body_enc_valid)
next
  case False
  then show ?thesis by (simp add: btokCVCBodyEnc_def bindA_def info_chain)
qed

lemma body_sig_indep:
  "CertificateBody (cvc\<lparr>sig := s\<rparr>) = CertificateBody cvc"
  "CertificateBody (cvc\<lparr>sig_len := n\<rparr>) = CertificateBody cvc"
  by (simp_all add: CertificateBody_def body_content_def PubKey_der_def CertHAT_der_def CVExt_der_def)

lemma enc_skip_at: "enc_skip (enc_at b B) (enc_at b pre) = enc_at b (pre @ B)"
  by (simp add: enc_skip_def enc_at_def written_def)

lemma bindA_Inr: "bindA (Inr v) f = f v"
  by (simp add: bindA_def)

lemma bindA_Inl: "bindA (Inl a) f = Inl a"
  by (simp add: bindA_def)

lemma wrap_form:
  assumes pl: "privkey_len = 32 \<or> privkey_len = 48 \<or> privkey_len = 64"
    and wp: "wrap_pubkey env cvc privkey privkey_len = (ERR_OK, cvc1)"
    and ck: "btokCVCCheck env (Some cvc1) = Inr ERR_OK"
  shows "btokCVCWrap env cert cl (Some cvc) privkey privkey_len =
     bindA
       (if cert then
          bindA (btokSign env (CertificateBody cvc1) privkey privkey_len)
            (\<lambda>(code, sg). Inr (code, cvc1\<lparr>sig := memCopy (sig cvc1) sg\<rparr>, 1))
        else Inr (ERR_OK, cvc1, 0))
       (\<lambda>(code, cvc2, n).
          if code \<noteq> ERR_OK then Inr (wrap_fail code (Some cvc2) n)
          else
            Inr \<lparr>wr_code = ERR_OK,
                 wr_cvc = Some (cvc2\<lparr>sig_len := privkey_len + privkey_len div 2\<rparr>),
                 wr_cert = fst (enc_at cert (derEnc 0x7F21 (CertificateBody cvc1 @
                    derTOCTEnc 0x5F37 (sig cvc2) (privkey_len + privkey_len div 2)))),
                 wr_cert_len =
                   (if cl then Some (length (derEnc 0x7F21 (CertificateBody cvc1 @
                      derTOCTEnc 0x5F37 (sig cvc2) (privkey_len + privkey_len div 2))))
                    else None),
                 wr_signed = n\<rparr>)"
proof -
  have be: "btokCVCBodyEnc cert cvc1 = Inr (enc_at cert (CertificateBody cvc1))"
    using ck by (simp add: check_ok_info body_enc_valid)
  have npl: "\<not> (privkey_len \<noteq> 32 \<and> privkey_len \<noteq> 48 \<and> privkey_len \<noteq> 64)"
    using pl by blast
  have w: "written (fst (enc_at True B)) = B" for B
    by (simp add: enc_at_def written_def)
  show ?thesis
    by (simp add: btokCVCWrap_def npl wp ck be bindA_Inr Let_def enc_at_init snd_enc_at
        derEncStep_enc_at enc_skip_at stop_enc_at0 w cong: if_cong)
qed

lemma wrap_dry:
  assumes pl: "privkey_len = 32 \<or> privkey_len = 48 \<or> privkey_len = 64"
    and wp: "wrap_pubkey env cvc privkey privkey_len = (ERR_OK, cvc1)"
    and ck: "btokCVCCheck env (Some cvc1) = Inr ERR_OK"
  shows "btokCVCWrap env False cl (Some cvc) privkey privkey_len =
     Inr \<lparr>wr_code = ERR_OK,
          wr_cvc = Some (cvc1\<lparr>sig_len := privkey_len + privkey_len div 2\<rparr>),
          wr_cert = None,
          wr_cert_len =
            (if cl then Some (length (CVCertificate (cvc1\<lparr>sig_len := privkey_len + privkey_len div 2\<rparr>)))
             else None),
          wr_signed = 0\<rparr>"
  unfolding wrap_form [OF pl wp ck]
  by (simp add: bindA_Inr fst_enc_at CVCertificate_def body_sig_indep)

lemma wrap_real:
  assumes pl: "privkey_len = 32 \<or> privkey_len = 48 \<or> privkey_len = 64"
    and wp: "wrap_pubkey env cvc privkey privkey_len = (ERR_OK, cvc1)"
    and ck: "btokCVCCheck env (Some cvc1) = Inr ERR_OK"
  shows "btokCVCWrap env True cl (Some cvc) privkey privkey_len =
     bindA (btokSign env (CertificateBody cvc1) privkey privkey_len) (\<lambda>(code, sg).
       if code \<noteq> ERR_OK then Inr (wrap_fail code (Some (cvc1\<lparr>sig := memCopy (sig cvc1) sg\<rparr>)) 1)
       else
         Inr \<lparr>wr_code = ERR_OK,
              wr_cvc = Some (cvc1\<lparr>sig := memCopy (sig cvc1) sg,
                                 sig_len := privkey_len + privkey_len div 2\<rparr>),
              wr_cert = Some (CVCertificate (cvc1\<lparr>sig := memCopy (sig cvc1) sg,
                                 sig_len := privkey_len + privkey_len div 2\<rparr>)),
              wr_cert_len =
                (if cl then Some (length (CVCertificate (cvc1\<lparr>sig := memCopy (sig cvc1) sg,
                                 sig_len := privkey_len + privkey_len div 2\<rparr>)))
                 else None),
              wr_signed = 1\<rparr>)"
  unfolding wrap_form [OF pl wp ck]
  by (cases "btokSign env (CertificateBody cvc1) privkey privkey_len")
     (auto simp add: bindA_Inr bindA_Inl fst_enc_at CVCertificate_def body_sig_indep
        split: prod.splits)

subsection \<open>No assertion of the validators or of the body encoder fails\<close>

lemma check_returns: "\<exists>code. btokCVCCheck env cvcp = Inr code"
proof (cases cvcp)
  case None
  then show ?thesis by (simp add: btokCVCCheck_def)
next
  case (Some cvc)
  then show ?thesis by (simp add: check_chain)
qed

lemma check2_returns: "\<exists>code. btokCVCCheck2 env cvcp cvcap = Inr code"
proof (cases cvcp)
  case None
  then show ?thesis by (simp add: btokCVCCheck2_def btokCVCCheck_def bindA_Inr)
next
  case (Some cvc)
  show ?thesis
  proof (cases "btokCVCCheck env (Some cvc) = Inr ERR_OK")
    case True
    note f = check_ok_fields [OF True]
    show ?thesis
      by (cases cvcap)
         (simp_all add: Some btokCVCCheck2_def True bindA_Inr date_leq_valid f)
  next
    case False
    then show ?thesis
      using check_returns [of env "Some cvc"]
      by (auto simp: Some btokCVCCheck2_def bindA_Inr)
  qed
qed

lemma load_and_hash_inl:
  "load_and_hash env curve hashed hash_oid a = Inl a' \<Longrightarrow> a' = a"
  by (auto simp: load_and_hash_def split: prod.splits if_splits)

lemma sign_inl:
  assumes "privkey_len = 32 \<or> privkey_len = 48 \<or> privkey_len = 64"
    and "btokSign env buf privkey privkey_len = Inl a"
  shows "a = ASSERT_Sign_oid"
  using assms
  by (auto simp: btokSign_def bindA_def Let_def split: if_splits sum.splits prod.splits
      dest: load_and_hash_inl)

lemma wrap_inl:
  assumes "btokCVCWrap env cert cl cvcp privkey privkey_len = Inl a"
  shows "cert \<and> a = ASSERT_Sign_oid"
proof (cases cvcp)
  case None
  then show ?thesis using assms by (simp add: btokCVCWrap_def)
next
  case (Some cvc)
  show ?thesis
  proof (cases "privkey_len = 32 \<or> privkey_len = 48 \<or> privkey_len = 64")
    case False
    then show ?thesis using assms by (simp add: btokCVCWrap_def Some)
  next
    case pl: True
    obtain code cvc1 where wp: "wrap_pubkey env cvc privkey privkey_len = (code, cvc1)"
      by (cases "wrap_pubkey env cvc privkey privkey_len")
    obtain c where ck: "btokCVCCheck env (Some cvc1) = Inr c"
      using check_returns by blast
    have npl: "\<not> (privkey_len \<noteq> 32 \<and> privkey_len \<noteq> 48 \<and> privkey_len \<noteq> 64)"
      using pl by blast
    show ?thesis
    proof (cases "code = ERR_OK")
      case False
      then show ?thesis
        using assms by (simp add: btokCVCWrap_def Some npl wp)
    next
      case code: True
      show ?thesis
      proof (cases "c = ERR_OK")
        case False
        then show ?thesis
          using assms by (simp add: btokCVCWrap_def Some npl wp code ck bindA_Inr)
      next
        case True
        then have wp': "wrap_pubkey env cvc privkey privkey_len = (ERR_OK, cvc1)"
          and ck': "btokCVCCheck env (Some cvc1) = Inr ERR_OK"
          using wp ck code by simp_all
        show ?thesis
          using assms sign_inl [OF pl, of env "CertificateBody cvc1" privkey]
          unfolding Some wrap_form [OF pl wp' ck']
          by (auto simp: bindA_def split: if_splits sum.splits prod.splits)
      qed
    qed
  qed
qed

subsection \<open>What wrap leaves behind\<close>

lemma wrap_ok_cases:
  assumes "btokCVCWrap env cert cl (Some cvc) privkey privkey_len = Inr r"
    and "wr_code r = ERR_OK"
  obtains cvc1 where "privkey_len = 32 \<or> privkey_len = 48 \<or> privkey_len = 64"
    and "wrap_pubkey env cvc privkey privkey_len = (ERR_OK, cvc1)"
    and "btokCVCCheck env (Some cvc1) = Inr ERR_OK"
proof (cases "privkey_len = 32 \<or> privkey_len = 48 \<or> privkey_len = 64")
  case False
  then show ?thesis using assms by (auto simp: btokCVCWrap_def wrap_fail_def)
next
  case pl: True
  have npl: "\<not> (privkey_len \<noteq> 32 \<and> privkey_len \<noteq> 48 \<and> privkey_len \<noteq> 64)"
    using pl by blast
  obtain code cvc1 where wp: "wrap_pubkey env cvc privkey privkey_len = (code, cvc1)"
    by (cases "wrap_pubkey env cvc privkey privkey_len")
  obtain c where ck: "btokCVCCheck env (Some cvc1) = Inr c"
    using check_returns by blast
  have code: "code = ERR_OK"
  proof (rule ccontr)
    assume "code \<noteq> ERR_OK"
    then show False using assms by (auto simp: btokCVCWrap_def npl wp wrap_fail_def)
  qed
  have c: "c = ERR_OK"
  proof (rule ccontr)
    assume "c \<noteq> ERR_OK"
    then show False
      using assms by (auto simp: btokCVCWrap_def npl wp code ck bindA_Inr wrap_fail_def)
  qed
  show ?thesis using that pl wp ck code c by simp
qed

lemma length_memCopy: "length (memCopy buf src) = length buf"
  by (simp add: memCopy_def)

lemma length_derEnc: "length (derEnc tag v) = length (derTEnc tag) + length (derLEnc (length v)) + length v"
  by (simp add: derEnc_def)

lemma length_CVCertificate_sig:
  "length (CVCertificate (c\<lparr>sig := memCopy (sig c) sg\<rparr>)) = length (CVCertificate c)"
  by (simp add: CVCertificate_def length_derEnc derTOCTEnc_def body_sig_indep length_memCopy)

lemma wrap_pubkey_frame:
  assumes "wrap_pubkey env cvc privkey privkey_len = (code, cvc1)"
  shows "sig cvc1 = sig cvc" "sig_len cvc1 = sig_len cvc" "authority cvc1 = authority cvc"
    "holder cvc1 = holder cvc" "hat_eid cvc1 = hat_eid cvc" "hat_esign cvc1 = hat_esign cvc"
    "from_date cvc1 = from_date cvc" "until cvc1 = until cvc"
  using assms
  by (auto simp: wrap_pubkey_def Let_def split: if_splits prod.splits)

lemma wrap_pubkey_present:
  "pubkey_len cvc \<noteq> 0 \<Longrightarrow> wrap_pubkey env cvc privkey privkey_len = (ERR_OK, cvc)"
  by (simp add: wrap_pubkey_def)

lemma wrap_pubkey_absent:
  assumes "wrap_pubkey env cvc privkey privkey_len = (ERR_OK, cvc1)" "pubkey_len cvc = 0"
  shows "fst (btokPubkeyCalc env privkey privkey_len) = ERR_OK"
    "pubkey_len cvc1 = 2 * privkey_len"
    "pubkey cvc1 =
       take (2 * privkey_len) (memCopy (pubkey cvc) (snd (btokPubkeyCalc env privkey privkey_len))) @
       replicate (length (pubkey cvc) - 2 * privkey_len) 0"
  using assms
  by (auto simp: wrap_pubkey_def Let_def length_memCopy split: if_splits prod.splits)

lemma memCopy_fits:
  "length src \<le> length buf \<Longrightarrow> memCopy buf src = src @ drop (length src) buf"
  by (simp add: memCopy_def)

lemma check_sig_indep:
  "btokCVCCheck env (Some (cvc\<lparr>sig_len := n\<rparr>)) = btokCVCCheck env (Some cvc)"
  "btokCVCCheck env (Some (cvc\<lparr>sig := s\<rparr>)) = btokCVCCheck env (Some cvc)"
  by (simp_all add: check_chain)

lemma wrap_dry_returns:
  "\<exists>r. btokCVCWrap env False cl cvcp privkey privkey_len = Inr r \<and> wr_signed r = 0"
proof (cases cvcp)
  case None
  then show ?thesis by (simp add: btokCVCWrap_def wrap_fail_def)
next
  case (Some cvc)
  show ?thesis
  proof (cases "privkey_len = 32 \<or> privkey_len = 48 \<or> privkey_len = 64")
    case False
    then show ?thesis by (simp add: btokCVCWrap_def Some wrap_fail_def)
  next
    case pl: True
    have npl: "\<not> (privkey_len \<noteq> 32 \<and> privkey_len \<noteq> 48 \<and> privkey_len \<noteq> 64)"
      using pl by blast
    obtain code cvc1 where wp: "wrap_pubkey env cvc privkey privkey_len = (code, cvc1)"
      by (cases "wrap_pubkey env cvc privkey privkey_len")
    obtain c where ck: "btokCVCCheck env (Some cvc1) = Inr c"
      using check_returns by blast
    show ?thesis
    proof (cases "code = ERR_OK")
      case False
      then show ?thesis by (simp add: btokCVCWrap_def Some npl wp wrap_fail_def)
    next
      case code: True
      show ?thesis
      proof (cases "c = ERR_OK")
        case False
        then show ?thesis
          by (simp add: btokCVCWrap_def Some npl wp code ck bindA_Inr wrap_fail_def)
      next
        case True
        then show ?thesis
          using wrap_dry [OF pl, of env cvc privkey cvc1 cl] wp ck code
          by (simp add: Some)
      qed
    qed
  qed
qed

subsection \<open>The test double\<close>

lemma test_pl: "(32::nat) = 32 \<or> (32::nat) = 48 \<or> (32::nat) = 64"
  by simp

lemma test_check_ok: "btokCVCCheck test_env (Some test_cvc) = Inr ERR_OK"
  by code_simp

lemma test_wrap_pubkey_nokey:
  "wrap_pubkey test_env test_cvc_nokey (replicate 32 7) 32 = (ERR_OK, test_cvc)"
  by code_simp

lemma test_wrap_pubkey: "wrap_pubkey test_env test_cvc (replicate 32 7) 32 = (ERR_OK, test_cvc)"
  by (rule wrap_pubkey_present) (simp add: test_cvc_def)

lemma test_sign:
  "btokSign test_env buf (replicate 32 7) 32 = Inr (ERR_OK, toy_sign 128 (toy_hash 32 buf) (replicate 32 7))"
  by (simp add: btokSign_def test_env_def load_and_hash_def bindA_Inr)

section \<open>The claims\<close>

text \<open>
  C6 (as amended). For every certificate record passed as a readable structure,
  the check returns BadName exactly when authority or holder fails the
  printable, length 8..12 test; otherwise BadDate exactly when from or until is
  malformed or from exceeds until in the byte-wise lexicographic order of the 6
  octets; otherwise the result of the public-key validation, which is BadInput
  when the key length is not 64, 96 or 128, else the code of loading the curve
  when that fails, else the result of the group-membership validation of the
  first \<open>pubkey_len\<close> octets of the key. The first failing check determines the
  returned kind.
\<close>

theorem check_returns_first_failing_kind:
  "btokCVCCheck env (Some cvc) = Inr
     (if \<not> btokCVCNameIsValid (authority cvc) \<or> \<not> btokCVCNameIsValid (holder cvc)
      then ERR_BAD_NAME
      else if \<not> check_date (from_date cvc) \<or> \<not> check_date (until cvc) \<or>
              date_exceeds (from_date cvc) (until cvc)
      then ERR_BAD_DATE
      else if pubkey_len cvc \<noteq> 64 \<and> pubkey_len cvc \<noteq> 96 \<and> pubkey_len cvc \<noteq> 128
      then ERR_BAD_INPUT
      else case bignStdParams env (params_oid_pub (pubkey_len cvc)) of
        (code, params) \<Rightarrow>
          if code \<noteq> ERR_OK then code
          else bignValPubkey env params (take (pubkey_len cvc) (pubkey cvc)))"
  by (simp add: check_chain date_valid_check_date btokPubkeyVal_def)

theorem check_returns_first_failing_kind_witness:
  "btokCVCCheck test_env (Some test_cvc) = Inr ERR_OK \<and>
   btokCVCCheck test_env (Some (test_cvc\<lparr>holder := []\<rparr>)) = Inr ERR_BAD_NAME \<and>
   btokCVCCheck test_env (Some (test_cvc\<lparr>until := [1, 9, 0, 1, 0, 1]\<rparr>)) = Inr ERR_BAD_DATE \<and>
   btokCVCCheck test_env (Some (test_cvc\<lparr>pubkey := replicate 32 1 @ replicate 96 0\<rparr>)) = Inr ERR_BAD_PUBKEY"
proof -
  have "(if \<not> btokCVCNameIsValid (authority test_cvc) \<or> \<not> btokCVCNameIsValid (holder test_cvc)
      then ERR_BAD_NAME
      else if \<not> check_date (from_date test_cvc) \<or> \<not> check_date (until test_cvc) \<or>
              date_exceeds (from_date test_cvc) (until test_cvc)
      then ERR_BAD_DATE
      else if pubkey_len test_cvc \<noteq> 64 \<and> pubkey_len test_cvc \<noteq> 96 \<and> pubkey_len test_cvc \<noteq> 128
      then ERR_BAD_INPUT
      else case bignStdParams test_env (params_oid_pub (pubkey_len test_cvc)) of
        (code, params) \<Rightarrow>
          if code \<noteq> ERR_OK then code
          else bignValPubkey test_env params (take (pubkey_len test_cvc) (pubkey test_cvc))) = ERR_OK"
    by code_simp
  then have a: "btokCVCCheck test_env (Some test_cvc) = Inr ERR_OK"
    using check_returns_first_failing_kind [of test_env test_cvc] by simp
  have b: "btokCVCCheck test_env (Some (test_cvc\<lparr>holder := []\<rparr>)) = Inr ERR_BAD_NAME"
    by code_simp
  have c: "btokCVCCheck test_env (Some (test_cvc\<lparr>until := [1, 9, 0, 1, 0, 1]\<rparr>)) = Inr ERR_BAD_DATE"
    by code_simp
  have d: "btokCVCCheck test_env (Some (test_cvc\<lparr>pubkey := replicate 32 1 @ replicate 96 0\<rparr>)) = Inr ERR_BAD_PUBKEY"
    by code_simp
  show ?thesis using a b c d by simp
qed

text \<open>
  C6 as stated fails: a readable record with valid names and dates and a key
  length of 0 is rejected with BadInput, which is none of BadName, BadDate and
  BadPubkey.
\<close>

theorem check_key_length_zero_is_bad_input:
  "btokCVCNameIsValid (authority (test_cvc\<lparr>pubkey_len := 0\<rparr>)) \<and>
   btokCVCNameIsValid (holder (test_cvc\<lparr>pubkey_len := 0\<rparr>)) \<and>
   btokCVCDateIsValid (from_date (test_cvc\<lparr>pubkey_len := 0\<rparr>)) \<and>
   btokCVCDateIsValid (until (test_cvc\<lparr>pubkey_len := 0\<rparr>)) \<and>
   \<not> date_exceeds (from_date (test_cvc\<lparr>pubkey_len := 0\<rparr>)) (until (test_cvc\<lparr>pubkey_len := 0\<rparr>)) \<and>
   btokCVCCheck test_env (Some (test_cvc\<lparr>pubkey_len := 0\<rparr>)) = Inr ERR_BAD_INPUT"
  by code_simp

text \<open>
  C10. The asserted precondition of the date comparator (both dates valid) holds
  at each of its calls in the info-validity predicate, in check and in check2:
  none of them ever stops at that assertion. On the wrap path the asserted
  precondition of the body encoder holds as well (wrap has run check before
  encoding), and no encoding step of the body is refused: wrap never stops at
  these assertions.
\<close>

theorem asserted_preconditions_hold:
  "btokCVCInfoSeemsValid cvc \<noteq> Inl ASSERT_DateLeq \<and>
   btokCVCCheck env cvcp \<noteq> Inl ASSERT_DateLeq \<and>
   btokCVCCheck2 env cvcp cvcap \<noteq> Inl ASSERT_DateLeq \<and>
   btokCVCWrap env cert cert_len cvcp privkey privkey_len \<noteq> Inl ASSERT_DateLeq \<and>
   btokCVCWrap env cert cert_len cvcp privkey privkey_len \<noteq> Inl ASSERT_BodyEnc_pre \<and>
   btokCVCWrap env cert cert_len cvcp privkey privkey_len \<noteq> Inl ASSERT_EncStep"
  using check_returns [of env cvcp] check2_returns [of env cvcp cvcap]
    wrap_inl [of env cert cert_len cvcp privkey privkey_len]
  by (auto simp: info_chain)


theorem asserted_preconditions_hold_witness:
  "btokCVCInfoSeemsValid test_cvc = Inr True \<and>
   btokCVCInfoSeemsValid test_cvc \<noteq> Inl ASSERT_DateLeq \<and>
   btokCVCCheck2 test_env (Some test_cvc) (Some test_cvc) = Inr ERR_BAD_NAME \<and>
   btokCVCCheck2 test_env (Some test_cvc) (Some test_cvc) \<noteq> Inl ASSERT_DateLeq \<and>
   btokCVCWrap test_env True True (Some test_cvc) (replicate 32 7) 32 \<noteq> Inl ASSERT_BodyEnc_pre"
proof -
  have a: "btokCVCInfoSeemsValid test_cvc = Inr True"
    by code_simp
  have b: "btokCVCCheck2 test_env (Some test_cvc) (Some test_cvc) = Inr ERR_BAD_NAME"
    by code_simp
  show ?thesis
    using a b
      asserted_preconditions_hold [of test_cvc test_env "Some test_cvc" "Some test_cvc"
        True True "replicate 32 7" 32]
    by simp
qed

text \<open>
  C9. A dry-run wrap (null certificate buffer) that returns OK leaves the
  signature of the record unchanged and calls the signer no time, and changes
  the other fields as a real call does: when \<open>pubkey_len\<close> was 0 it fills the key
  buffer with the derived key, sets \<open>pubkey_len\<close> to twice the length of the
  private key and zeroes the rest of the buffer; in every case it sets \<open>sig_len\<close>
  to \<open>privkey_len + privkey_len / 2\<close>; the names, the templates and the dates
  stay. Whenever the real call with the same arguments returns OK, its record
  differs from the record of the dry run in the signature only.
\<close>

theorem dry_run_wrap_frame:
  assumes dry: "btokCVCWrap env False cert_len (Some cvc) privkey privkey_len = Inr r"
    and ok: "wr_code r = ERR_OK"
  shows "wr_signed r = 0 \<and>
    (\<exists>cvc'. wr_cvc r = Some cvc' \<and>
       sig cvc' = sig cvc \<and>
       sig_len cvc' = privkey_len + privkey_len div 2 \<and>
       authority cvc' = authority cvc \<and> holder cvc' = holder cvc \<and>
       hat_eid cvc' = hat_eid cvc \<and> hat_esign cvc' = hat_esign cvc \<and>
       from_date cvc' = from_date cvc \<and> until cvc' = until cvc \<and>
       (if pubkey_len cvc = 0 then
          fst (btokPubkeyCalc env privkey privkey_len) = ERR_OK \<and>
          pubkey_len cvc' = 2 * privkey_len \<and>
          pubkey cvc' =
            take (2 * privkey_len)
              (memCopy (pubkey cvc) (snd (btokPubkeyCalc env privkey privkey_len))) @
            replicate (length (pubkey cvc) - 2 * privkey_len) 0 \<and>
          (length (pubkey cvc) = 128 \<and>
           length (snd (btokPubkeyCalc env privkey privkey_len)) = 2 * privkey_len \<longrightarrow>
           pubkey cvc' =
             snd (btokPubkeyCalc env privkey privkey_len) @ replicate (128 - 2 * privkey_len) 0)
        else pubkey_len cvc' = pubkey_len cvc \<and> pubkey cvc' = pubkey cvc) \<and>
       (\<forall>r'. btokCVCWrap env True cert_len (Some cvc) privkey privkey_len = Inr r' \<and>
             wr_code r' = ERR_OK \<longrightarrow>
             (\<exists>cvc''. wr_cvc r' = Some cvc'' \<and> cvc' = cvc''\<lparr>sig := sig cvc\<rparr>)))"
proof -
  obtain cvc1 where pl: "privkey_len = 32 \<or> privkey_len = 48 \<or> privkey_len = 64"
    and wp: "wrap_pubkey env cvc privkey privkey_len = (ERR_OK, cvc1)"
    and ck: "btokCVCCheck env (Some cvc1) = Inr ERR_OK"
    using wrap_ok_cases [OF dry ok] by blast
  note fr = wrap_pubkey_frame [OF wp]
  have r: "r = \<lparr>wr_code = ERR_OK,
          wr_cvc = Some (cvc1\<lparr>sig_len := privkey_len + privkey_len div 2\<rparr>),
          wr_cert = None,
          wr_cert_len =
            (if cert_len then Some (length (CVCertificate (cvc1\<lparr>sig_len := privkey_len + privkey_len div 2\<rparr>)))
             else None),
          wr_signed = 0\<rparr>"
    using dry unfolding wrap_dry [OF pl wp ck] by simp
  have key: "if pubkey_len cvc = 0 then
          fst (btokPubkeyCalc env privkey privkey_len) = ERR_OK \<and>
          pubkey_len cvc1 = 2 * privkey_len \<and>
          pubkey cvc1 =
            take (2 * privkey_len)
              (memCopy (pubkey cvc) (snd (btokPubkeyCalc env privkey privkey_len))) @
            replicate (length (pubkey cvc) - 2 * privkey_len) 0 \<and>
          (length (pubkey cvc) = 128 \<and>
           length (snd (btokPubkeyCalc env privkey privkey_len)) = 2 * privkey_len \<longrightarrow>
           pubkey cvc1 =
             snd (btokPubkeyCalc env privkey privkey_len) @ replicate (128 - 2 * privkey_len) 0)
        else pubkey_len cvc1 = pubkey_len cvc \<and> pubkey cvc1 = pubkey cvc"
  proof (cases "pubkey_len cvc = 0")
    case True
    note ab = wrap_pubkey_absent [OF wp True]
    have "pubkey cvc1 = snd (btokPubkeyCalc env privkey privkey_len) @ replicate (128 - 2 * privkey_len) 0"
      if "length (pubkey cvc) = 128" "length (snd (btokPubkeyCalc env privkey privkey_len)) = 2 * privkey_len"
      using that pl ab(3) by (auto simp: memCopy_fits)
    then show ?thesis using True ab by simp
  next
    case False
    then show ?thesis using wp by (simp add: wrap_pubkey_present)
  qed
  have real: "\<exists>cvc''. wr_cvc r' = Some cvc'' \<and>
        cvc1\<lparr>sig_len := privkey_len + privkey_len div 2\<rparr> = cvc''\<lparr>sig := sig cvc\<rparr>"
    if "btokCVCWrap env True cert_len (Some cvc) privkey privkey_len = Inr r'" "wr_code r' = ERR_OK" for r'
    using that fr(1) unfolding wrap_real [OF pl wp ck]
    by (cases "btokSign env (CertificateBody cvc1) privkey privkey_len")
       (auto simp: bindA_Inr bindA_Inl wrap_fail_def split: prod.splits if_splits)
  let ?c = "cvc1\<lparr>sig_len := privkey_len + privkey_len div 2\<rparr>"
  have pk1: "pubkey ?c = pubkey cvc1" "pubkey_len ?c = pubkey_len cvc1"
    by simp_all
  show ?thesis
  proof (intro conjI exI)
    show "wr_signed r = 0" by (simp add: r)
    show "wr_cvc r = Some ?c" by (simp add: r)
    show "sig ?c = sig cvc" "authority ?c = authority cvc" "holder ?c = holder cvc"
      "hat_eid ?c = hat_eid cvc" "hat_esign ?c = hat_esign cvc"
      "from_date ?c = from_date cvc" "until ?c = until cvc"
      by (simp_all add: fr)
    show "sig_len ?c = privkey_len + privkey_len div 2" by simp
    show "if pubkey_len cvc = 0 then
          fst (btokPubkeyCalc env privkey privkey_len) = ERR_OK \<and>
          pubkey_len ?c = 2 * privkey_len \<and>
          pubkey ?c =
            take (2 * privkey_len)
              (memCopy (pubkey cvc) (snd (btokPubkeyCalc env privkey privkey_len))) @
            replicate (length (pubkey cvc) - 2 * privkey_len) 0 \<and>
          (length (pubkey cvc) = 128 \<and>
           length (snd (btokPubkeyCalc env privkey privkey_len)) = 2 * privkey_len \<longrightarrow>
           pubkey ?c =
             snd (btokPubkeyCalc env privkey privkey_len) @ replicate (128 - 2 * privkey_len) 0)
        else pubkey_len ?c = pubkey_len cvc \<and> pubkey ?c = pubkey cvc"
      unfolding pk1 by (rule key)
    show "\<forall>r'. btokCVCWrap env True cert_len (Some cvc) privkey privkey_len = Inr r' \<and>
             wr_code r' = ERR_OK \<longrightarrow>
             (\<exists>cvc''. wr_cvc r' = Some cvc'' \<and> ?c = cvc''\<lparr>sig := sig cvc\<rparr>)"
      using real by blast
  qed
qed

theorem dry_run_wrap_frame_witness:
  "\<exists>r. btokCVCWrap test_env False True (Some test_cvc_nokey) (replicate 32 7) 32 = Inr r \<and>
       wr_code r = ERR_OK \<and> wr_signed r = 0 \<and>
       (\<exists>cvc'. wr_cvc r = Some cvc' \<and> sig cvc' = sig test_cvc_nokey \<and>
          sig_len cvc' = 48 \<and> pubkey_len cvc' = 64)"
proof -
  obtain r where d: "btokCVCWrap test_env False True (Some test_cvc_nokey) (replicate 32 7) 32 = Inr r"
    and ok: "wr_code r = ERR_OK"
    using wrap_dry [OF test_pl test_wrap_pubkey_nokey test_check_ok, of True] by simp
  have k: "pubkey_len test_cvc_nokey = 0" by (simp add: test_cvc_nokey_def)
  show ?thesis
    using dry_run_wrap_frame [OF d ok] d ok k by auto
qed

text \<open>
  C4. A dry-run wrap never calls the signer (it returns normally, with no call
  counted, for every input), and when it returns OK the length it reports is the
  length of the certificate that a wrap with a real output buffer produces,
  called on the same record or on the record as the dry run left it.
\<close>

theorem dry_run_length_is_real_length:
  assumes dry: "btokCVCWrap env False True (Some cvc) privkey privkey_len = Inr r"
    and ok: "wr_code r = ERR_OK"
  shows "(\<exists>r0. btokCVCWrap env False cl cvcp0 privkey0 privkey_len0 = Inr r0 \<and> wr_signed r0 = 0) \<and>
    (\<exists>n. wr_cert_len r = Some n \<and>
       (\<forall>r'. btokCVCWrap env True True (Some cvc) privkey privkey_len = Inr r' \<and>
             wr_code r' = ERR_OK \<longrightarrow>
             wr_cert_len r' = Some n \<and> map_option length (wr_cert r') = Some n) \<and>
       (\<forall>r'. btokCVCWrap env True True (wr_cvc r) privkey privkey_len = Inr r' \<and>
             wr_code r' = ERR_OK \<longrightarrow>
             wr_cert_len r' = Some n \<and> map_option length (wr_cert r') = Some n))"
proof -
  obtain cvc1 where pl: "privkey_len = 32 \<or> privkey_len = 48 \<or> privkey_len = 64"
    and wp: "wrap_pubkey env cvc privkey privkey_len = (ERR_OK, cvc1)"
    and ck: "btokCVCCheck env (Some cvc1) = Inr ERR_OK"
    using wrap_ok_cases [OF dry ok] by blast
  let ?c = "cvc1\<lparr>sig_len := privkey_len + privkey_len div 2\<rparr>"
  let ?n = "length (CVCertificate ?c)"
  have r: "r = \<lparr>wr_code = ERR_OK, wr_cvc = Some ?c, wr_cert = None,
          wr_cert_len = Some ?n, wr_signed = 0\<rparr>"
    using dry unfolding wrap_dry [OF pl wp ck] by simp
  have len: "length (CVCertificate (cvc1\<lparr>sig := memCopy (sig cvc1) sg,
        sig_len := privkey_len + privkey_len div 2\<rparr>)) = ?n" for sg
    by (simp add: CVCertificate_def length_derEnc derTOCTEnc_def body_sig_indep length_memCopy)
  have first: "wr_cert_len r' = Some ?n \<and> map_option length (wr_cert r') = Some ?n"
    if "btokCVCWrap env True True (Some cvc) privkey privkey_len = Inr r'" "wr_code r' = ERR_OK" for r'
    using that unfolding wrap_real [OF pl wp ck]
    by (cases "btokSign env (CertificateBody cvc1) privkey privkey_len")
       (auto simp: bindA_Inr bindA_Inl wrap_fail_def len split: prod.splits if_splits)
  have "pubkey_len ?c \<noteq> 0"
    using check_ok_fields(7) [OF ck] by auto
  then have wp2: "wrap_pubkey env ?c privkey privkey_len = (ERR_OK, ?c)"
    by (rule wrap_pubkey_present)
  have ck2: "btokCVCCheck env (Some ?c) = Inr ERR_OK"
    using ck by (simp add: check_sig_indep)
  have len2: "length (CVCertificate (?c\<lparr>sig := memCopy (sig ?c) sg,
        sig_len := privkey_len + privkey_len div 2\<rparr>)) = ?n" for sg
    by (simp add: CVCertificate_def length_derEnc derTOCTEnc_def body_sig_indep length_memCopy)
  have second: "wr_cert_len r' = Some ?n \<and> map_option length (wr_cert r') = Some ?n"
    if "btokCVCWrap env True True (Some ?c) privkey privkey_len = Inr r'" "wr_code r' = ERR_OK" for r'
    using that unfolding wrap_real [OF pl wp2 ck2]
    by (cases "btokSign env (CertificateBody ?c) privkey privkey_len")
       (auto simp: bindA_Inr bindA_Inl wrap_fail_def len len2 split: prod.splits if_splits)
  have dryrun: "\<exists>r0. btokCVCWrap env False cl cvcp0 privkey0 privkey_len0 = Inr r0 \<and> wr_signed r0 = 0"
    by (rule wrap_dry_returns)
  have lens: "\<exists>n. wr_cert_len r = Some n \<and>
       (\<forall>r'. btokCVCWrap env True True (Some cvc) privkey privkey_len = Inr r' \<and>
             wr_code r' = ERR_OK \<longrightarrow>
             wr_cert_len r' = Some n \<and> map_option length (wr_cert r') = Some n) \<and>
       (\<forall>r'. btokCVCWrap env True True (wr_cvc r) privkey privkey_len = Inr r' \<and>
             wr_code r' = ERR_OK \<longrightarrow>
             wr_cert_len r' = Some n \<and> map_option length (wr_cert r') = Some n)"
  proof (intro exI conjI)
    show "wr_cert_len r = Some ?n" by (simp add: r)
    show "\<forall>r'. btokCVCWrap env True True (Some cvc) privkey privkey_len = Inr r' \<and>
             wr_code r' = ERR_OK \<longrightarrow>
             wr_cert_len r' = Some ?n \<and> map_option length (wr_cert r') = Some ?n"
      using first by blast
    show "\<forall>r'. btokCVCWrap env True True (wr_cvc r) privkey privkey_len = Inr r' \<and>
             wr_code r' = ERR_OK \<longrightarrow>
             wr_cert_len r' = Some ?n \<and> map_option length (wr_cert r') = Some ?n"
      using second by (simp add: r)
  qed
  show ?thesis using dryrun lens by (rule conjI)
qed

theorem dry_run_length_is_real_length_witness:
  "\<exists>r r' n. btokCVCWrap test_env False True (Some test_cvc) (replicate 32 7) 32 = Inr r \<and>
     wr_code r = ERR_OK \<and> wr_signed r = 0 \<and> wr_cert_len r = Some n \<and>
     btokCVCWrap test_env True True (Some test_cvc) (replicate 32 7) 32 = Inr r' \<and>
     wr_code r' = ERR_OK \<and> wr_signed r' = 1 \<and> map_option length (wr_cert r') = Some n"
proof -
  obtain r where d: "btokCVCWrap test_env False True (Some test_cvc) (replicate 32 7) 32 = Inr r"
    and ok: "wr_code r = ERR_OK" and s: "wr_signed r = 0"
    using wrap_dry [OF test_pl test_wrap_pubkey test_check_ok, of True] by simp
  obtain r' where e: "btokCVCWrap test_env True True (Some test_cvc) (replicate 32 7) 32 = Inr r'"
    and ok': "wr_code r' = ERR_OK" and s': "wr_signed r' = 1"
    using wrap_real [OF test_pl test_wrap_pubkey test_check_ok, of True]
    by (simp add: test_sign bindA_Inr)
  obtain n where n: "wr_cert_len r = Some n"
    and real: "\<forall>r'. btokCVCWrap test_env True True (Some test_cvc) (replicate 32 7) 32 = Inr r' \<and>
             wr_code r' = ERR_OK \<longrightarrow>
             wr_cert_len r' = Some n \<and> map_option length (wr_cert r') = Some n"
    using dry_run_length_is_real_length [OF d ok] by blast
  have "map_option length (wr_cert r') = Some n"
    using real e ok' by blast
  then show ?thesis
    using d ok s n e ok' s' by blast
qed

end
